theory Spec2Isabelle
  imports Main "HOL-Library.Multiset"
begin

section \<open>Python values\<close>

text \<open>
  A Python \<open>str\<close> is a sequence of Unicode code points, and the format widths of the
  display routine count code points. A string is therefore a list of code points;
  \<open>ascii\<close> turns an ASCII literal into one.
\<close>

type_synonym str = "nat list"

definition ascii :: "string \<Rightarrow> str" where
  "ascii s = map of_char s"

text \<open>
  The values that reach the storage layer as statement parameters: \<open>None\<close>, an
  \<open>int\<close>, a \<open>str\<close>, or a list whose elements are integers or \<open>None\<close>.
\<close>

datatype pyval = PyNone | PyInt int | PyStr str | PyList "int option list"

text \<open>
  The exceptions that end a run: a missing attribute, a value of the wrong type in the
  display routine, and \<open>StorageError\<close> for any exception raised by a statement sent to
  the database.
\<close>

datatype error =
    AttributeError
  | TypeError
  | StorageError

section \<open>display_students\<close>

text \<open>
  The dictionaries handed to \<open>display_students\<close>; a field is \<open>None\<close> when the key
  is absent (the routine reads every key with \<open>dict.get\<close>).
\<close>

record student =
  name :: "str option"
  group :: "str option"
  grade :: "int option list option"

fun digits :: "nat \<Rightarrow> str" where
  "digits n = (if n < 10 then [48 + n] else digits (n div 10) @ [48 + n mod 10])"

declare digits.simps [simp del]

definition str_int :: "int \<Rightarrow> str" where
  "str_int i = (if i < 0 then 45 # digits (nat (- i)) else digits (nat i))"

fun str_elem :: "int option \<Rightarrow> str" where
  "str_elem None = ascii ''None''"
| "str_elem (Some i) = str_int i"

fun join :: "str \<Rightarrow> str list \<Rightarrow> str" where
  "join sep [] = []"
| "join sep [x] = x"
| "join sep (x # y # ys) = x @ sep @ join sep (y # ys)"

definition rjust :: "nat \<Rightarrow> str \<Rightarrow> str" where
  "rjust w s = replicate (w - length s) 32 @ s"

definition ljust :: "nat \<Rightarrow> str \<Rightarrow> str" where
  "ljust w s = s @ replicate (w - length s) 32"

definition center :: "nat \<Rightarrow> str \<Rightarrow> str" where
  "center w s =
     (let pad = w - length s; left = pad div 2
      in replicate left 32 @ s @ replicate (pad - left) 32)"

definition line :: str where
  "line = ascii ''+-'' @ replicate 4 45 @ ascii ''-+-'' @ replicate 30 45 @ ascii ''-+-''
          @ replicate 20 45 @ ascii ''-+-'' @ replicate 15 45 @ ascii ''-+''"

definition header :: str where
  "header = ascii ''| '' @ center 4 [8470] @ ascii '' | ''
          @ center 30 [1060, 46, 1048, 46, 1054, 46] @ ascii '' | ''
          @ center 20 [1043, 1088, 1091, 1087, 1087, 1072] @ ascii '' | ''
          @ center 15 [1059, 1089, 1087, 1077, 1074, 1072, 1077, 1084, 1086, 1089, 1090, 1100]
          @ ascii '' |''"

definition empty_message :: str where
  "empty_message = [1057, 1087, 1080, 1089, 1086, 1082, 32, 1089, 1090, 1091, 1076, 1077,
                    1085, 1090, 1086, 1074, 32, 1087, 1091, 1089, 1090, 46]"

definition format_row :: "nat \<Rightarrow> student \<Rightarrow> error + str" where
  "format_row idx st =
     (case grade st of
        None \<Rightarrow> Inl TypeError
      | Some g \<Rightarrow>
          Inr (ascii ''| '' @ rjust 4 (digits idx) @ ascii '' | ''
               @ ljust 30 (case name st of None \<Rightarrow> [] | Some n \<Rightarrow> n) @ ascii '' | ''
               @ ljust 20 (case group st of None \<Rightarrow> [] | Some t \<Rightarrow> t) @ ascii '' | ''
               @ rjust 15 (join (ascii '', '') (map str_elem g)) @ ascii '' |''))"

fun print_rows :: "nat \<Rightarrow> student list \<Rightarrow> str list \<times> error option" where
  "print_rows idx [] = ([], None)"
| "print_rows idx (st # rest) =
     (case format_row idx st of
        Inl e \<Rightarrow> ([], Some e)
      | Inr l \<Rightarrow> (case print_rows (Suc idx) rest of (ls, e) \<Rightarrow> (l # ls, e)))"

definition display_students :: "student list \<Rightarrow> str list \<times> error option" where
  "display_students staff =
     (if staff \<noteq> [] then
        (case print_rows 1 staff of
           (rows, None) \<Rightarrow> ([line, header, line] @ rows @ [line], None)
         | (rows, Some e) \<Rightarrow> ([line, header, line] @ rows, Some e))
      else ([empty_message], None))"


section \<open>The database file\<close>

text \<open>
  The state of one database file: the two sequences and the two tables of \<open>create_db\<close>.
  A sequence is \<open>None\<close> while it does not exist, and otherwise holds the value its next
  \<open>nextval\<close> returns. A table is \<open>None\<close> while it does not exist, and otherwise holds
  its rows; when it exists it has the columns \<open>create_db\<close> gives it. A file that does not
  exist yet is opened as \<open>empty_file\<close>.
\<close>

type_synonym group_row = "int \<times> str"
  \<comment> \<open>\<open>(group_id, group_title)\<close>\<close>

type_synonym student_row = "int \<times> str \<times> int \<times> int option list"
  \<comment> \<open>\<open>(student_id, student_name, group_id, student_grade)\<close>\<close>

record database =
  group_st :: "int option"
  student_st :: "int option"
  groups :: "group_row list option"
  students :: "student_row list option"

definition empty_file :: database where
  "empty_file = \<lparr>group_st = None, student_st = None, groups = None, students = None\<rparr>"

text \<open>
  \<open>CREATE ... IF NOT EXISTS\<close>: a sequence or table that exists is left as it is; a new
  sequence starts at 1 and a new table is empty.
\<close>

definition create_db :: "database \<Rightarrow> database" where
  "create_db db =
     db\<lparr>group_st := (case group_st db of None \<Rightarrow> Some 1 | Some n \<Rightarrow> Some n),
        student_st := (case student_st db of None \<Rightarrow> Some 1 | Some n \<Rightarrow> Some n),
        groups := (case groups db of None \<Rightarrow> Some [] | Some rows \<Rightarrow> Some rows),
        students := (case students db of None \<Rightarrow> Some [] | Some rows \<Rightarrow> Some rows)\<rparr>"

subsection \<open>Statement parameters and results\<close>

text \<open>
  A Python \<open>str\<close> reaches the engine as UTF-8: a string that holds a surrogate code point
  cannot be encoded, and the statement it is a parameter of raises. A string without
  surrogates and without the character NUL is \<open>plain\<close>: it is compared and stored as it
  is.

  What the engine does with a string that holds NUL, and with a parameter whose Python
  type is not the column's type, is decided by the engine and not by this program, and
  so is the order of the rows of a result. These are parameters of the model: \<open>binds\<close>
  tells whether such a parameter is accepted where a text is expected, \<open>eq_text\<close>,
  \<open>to_text\<close> and \<open>to_int_array\<close> give the comparison and the stored values (\<open>None\<close> when
  the statement fails), and \<open>id_order\<close> and \<open>row_order\<close> arrange the rows of a result.
\<close>

datatype query = SelectAll | SelectByGroup

type_synonym joined_row = "str \<times> str \<times> int option list"
  \<comment> \<open>\<open>(student_name, group_title, student_grade)\<close>\<close>

record engine =
  binds :: "pyval \<Rightarrow> bool"
  eq_text :: "str \<Rightarrow> pyval \<Rightarrow> bool option"
  to_text :: "pyval \<Rightarrow> str option"
  to_int_array :: "pyval \<Rightarrow> int option list option"
  id_order :: "int list \<Rightarrow> int list"
  row_order :: "query \<Rightarrow> joined_row list \<Rightarrow> joined_row list"

definition int32 :: "int \<Rightarrow> bool" where
  "int32 i \<longleftrightarrow> - 2147483648 \<le> i \<and> i \<le> 2147483647"

definition encodable :: "str \<Rightarrow> bool" where
  "encodable s \<longleftrightarrow> list_all (\<lambda>c. c < 55296 \<or> (57343 < c \<and> c \<le> 1114111)) s"

definition plain :: "str \<Rightarrow> bool" where
  "plain s \<longleftrightarrow> encodable s \<and> list_all (\<lambda>c. 0 < c) s"

text \<open>Whether a parameter is accepted where a text is expected.\<close>

fun text_param :: "engine \<Rightarrow> pyval \<Rightarrow> bool" where
  "text_param eng (PyStr s) = (plain s \<or> (encodable s \<and> binds eng (PyStr s)))"
| "text_param eng PyNone = True"
| "text_param eng v = binds eng v"

text \<open>\<open>group_title = ?\<close>: exact equality with a plain string, never true for \<open>NULL\<close>.\<close>

fun title_eq :: "engine \<Rightarrow> str \<Rightarrow> pyval \<Rightarrow> bool option" where
  "title_eq eng t (PyStr s) = (if plain s then Some (t = s) else eq_text eng t (PyStr s))"
| "title_eq eng t PyNone = Some False"
| "title_eq eng t v = eq_text eng t v"

text \<open>The value stored in a \<open>TEXT NOT NULL\<close> column.\<close>

fun as_text :: "engine \<Rightarrow> pyval \<Rightarrow> str option" where
  "as_text eng (PyStr s) =
     (if plain s then Some s else if encodable s then to_text eng (PyStr s) else None)"
| "as_text eng PyNone = None"
| "as_text eng v = to_text eng v"

text \<open>The value stored in an \<open>INT[] NOT NULL\<close> column; its elements are 32-bit.\<close>

fun as_grade :: "engine \<Rightarrow> pyval \<Rightarrow> int option list option" where
  "as_grade eng (PyList xs) =
     (if list_all (\<lambda>x. case x of None \<Rightarrow> True | Some i \<Rightarrow> int32 i) xs then Some xs else None)"
| "as_grade eng PyNone = None"
| "as_grade eng (PyStr s) = (if encodable s then to_int_array eng (PyStr s) else None)"
| "as_grade eng v = to_int_array eng v"

text \<open>A \<open>WHERE\<close> clause over rows: the statement fails if a comparison fails.\<close>

fun where_rows :: "('a \<Rightarrow> bool option) \<Rightarrow> 'a list \<Rightarrow> 'a list option" where
  "where_rows p [] = Some []"
| "where_rows p (x # xs) =
     (case p x of
        None \<Rightarrow> None
      | Some b \<Rightarrow>
          (case where_rows p xs of
             None \<Rightarrow> None
           | Some ys \<Rightarrow> Some (if b then x # ys else ys)))"

text \<open>
  The rows of a result in the order the engine gives them: the engine's arrangement,
  which can only permute the rows.
\<close>

definition permuted :: "('a list \<Rightarrow> 'a list) \<Rightarrow> 'a list \<Rightarrow> 'a list" where
  "permuted f xs = (if mset (f xs) = mset xs then f xs else xs)"

subsection \<open>add_student\<close>

text \<open>
  The first half of \<open>add_student\<close>: look the group up by title and take the identifier
  that \<open>fetchone\<close> returns, the first of the result, or insert a new row whose identifier
  is the next value of \<open>group_st\<close>. \<open>group_id\<close> is an \<open>INTEGER PRIMARY KEY\<close>.
\<close>

definition resolve_group :: "engine \<Rightarrow> database \<Rightarrow> pyval \<Rightarrow> error + database \<times> int" where
  "resolve_group eng db g =
     (case groups db of
        None \<Rightarrow> Inl StorageError
      | Some grows \<Rightarrow>
          if text_param eng g then
            (case where_rows (\<lambda>r. title_eq eng (snd r) g) grows of
               None \<Rightarrow> Inl StorageError
             | Some found \<Rightarrow>
                 (case permuted (id_order eng) (map fst found) of
                    group_id # _ \<Rightarrow> Inr (db, group_id)
                  | [] \<Rightarrow>
                      (case group_st db of
                         None \<Rightarrow> Inl StorageError
                       | Some n \<Rightarrow>
                           (case as_text eng g of
                              None \<Rightarrow> Inl StorageError
                            | Some t \<Rightarrow>
                                if int32 n \<and> n \<notin> fst ` set grows
                                then Inr (db\<lparr>group_st := Some (n + 1),
                                             groups := Some (grows @ [(n, t)])\<rparr>, n)
                                else Inl StorageError))))
          else Inl StorageError)"

text \<open>
  The second half: insert the student row. \<open>student_id\<close> is an \<open>INTEGER PRIMARY KEY\<close>
  and \<open>group_id\<close> a foreign key into \<open>groups\<close>.
\<close>

definition insert_student ::
  "engine \<Rightarrow> database \<Rightarrow> pyval \<Rightarrow> int \<Rightarrow> pyval \<Rightarrow> error + database" where
  "insert_student eng db nm gid gr =
     (case students db of
        None \<Rightarrow> Inl StorageError
      | Some srows \<Rightarrow>
          (case groups db of
             None \<Rightarrow> Inl StorageError
           | Some grows \<Rightarrow>
               (case student_st db of
                  None \<Rightarrow> Inl StorageError
                | Some n \<Rightarrow>
                    (case as_text eng nm of
                       None \<Rightarrow> Inl StorageError
                     | Some student_name \<Rightarrow>
                         (case as_grade eng gr of
                            None \<Rightarrow> Inl StorageError
                          | Some g \<Rightarrow>
                              if int32 n \<and> n \<notin> fst ` set srows \<and> gid \<in> fst ` set grows
                              then Inr (db\<lparr>student_st := Some (n + 1),
                                           students :=
                                             Some (srows @ [(n, student_name, gid, g)])\<rparr>)
                              else Inl StorageError)))))"

definition add_student ::
  "engine \<Rightarrow> database \<Rightarrow> pyval \<Rightarrow> pyval \<Rightarrow> pyval \<Rightarrow> error + database" where
  "add_student eng db nm g gr =
     (case resolve_group eng db g of
        Inl e \<Rightarrow> Inl e
      | Inr (db1, group_id) \<Rightarrow> insert_student eng db1 nm group_id gr)"

subsection \<open>select_all and select_by_grade\<close>

text \<open>
  The inner join of \<open>students\<close> with \<open>groups\<close> on \<open>group_id\<close>, projected to
  \<open>(student_name, group_title, student_grade)\<close>: \<open>joined\<close> lists its rows student by
  student, and each query returns them in the order the engine gives that query.
\<close>

definition joined :: "student_row list \<Rightarrow> group_row list \<Rightarrow> joined_row list" where
  "joined srows grows =
     concat (map (\<lambda>(sid, nm, gid, g).
                    map (\<lambda>r. (nm, snd r, g)) (filter (\<lambda>r. fst r = gid) grows)) srows)"

definition as_dict :: "joined_row \<Rightarrow> student" where
  "as_dict row = (case row of (nm, t, g) \<Rightarrow> \<lparr>name = Some nm, group = Some t, grade = Some g\<rparr>)"

definition select_all :: "engine \<Rightarrow> database \<Rightarrow> error + student list" where
  "select_all eng db =
     (case students db of
        None \<Rightarrow> Inl StorageError
      | Some srows \<Rightarrow>
          (case groups db of
             None \<Rightarrow> Inl StorageError
           | Some grows \<Rightarrow>
               Inr (map as_dict (permuted (row_order eng SelectAll) (joined srows grows)))))"

definition select_by_grade :: "engine \<Rightarrow> database \<Rightarrow> pyval \<Rightarrow> error + student list" where
  "select_by_grade eng db g =
     (case students db of
        None \<Rightarrow> Inl StorageError
      | Some srows \<Rightarrow>
          (case groups db of
             None \<Rightarrow> Inl StorageError
           | Some grows \<Rightarrow>
               if text_param eng g then
                 (case where_rows (\<lambda>row. title_eq eng (fst (snd row)) g) (joined srows grows) of
                    None \<Rightarrow> Inl StorageError
                  | Some rows \<Rightarrow>
                      Inr (map as_dict (permuted (row_order eng SelectByGroup) rows)))
               else Inl StorageError))"

subsection \<open>Consistent and reachable states\<close>

text \<open>
  A consistent file has its schema, identifiers that are unique and below the next value
  of their sequence, and student rows that reference group rows.
\<close>

definition consistent :: "database \<Rightarrow> bool" where
  "consistent db =
     (case (group_st db, student_st db, groups db, students db) of
        (Some gn, Some sn, Some grows, Some srows) \<Rightarrow>
          1 \<le> gn \<and> 1 \<le> sn \<and>
          distinct (map fst grows) \<and> distinct (map fst srows) \<and>
          list_all (\<lambda>r. fst r < gn) grows \<and> list_all (\<lambda>r. fst r < sn) srows \<and>
          list_all (\<lambda>r. fst (snd (snd r)) \<in> fst ` set grows) srows
      | _ \<Rightarrow> False)"

text \<open>Every student row references a group row.\<close>

definition references_ok :: "database \<Rightarrow> bool" where
  "references_ok db =
     (case students db of
        None \<Rightarrow> True
      | Some srows \<Rightarrow>
          (case groups db of
             None \<Rightarrow> False
           | Some grows \<Rightarrow> list_all (\<lambda>r. fst (snd (snd r)) \<in> fst ` set grows) srows))"

text \<open>
  The states of a file that starts out absent. Every statement is committed on its own,
  so a run of \<open>add_student\<close> that fails at the student row leaves the group row it
  inserted (\<open>group_only\<close>), and a statement that fails may have consumed a sequence value
  (\<open>group_skipped\<close>, \<open>student_skipped\<close>).
\<close>

inductive reachable :: "engine \<Rightarrow> database \<Rightarrow> bool" for eng :: engine where
  start: "reachable eng empty_file"
| created: "reachable eng db \<Longrightarrow> reachable eng (create_db db)"
| added: "reachable eng db \<Longrightarrow> add_student eng db nm g gr = Inr db' \<Longrightarrow> reachable eng db'"
| group_only: "reachable eng db \<Longrightarrow> resolve_group eng db g = Inr (db', gid) \<Longrightarrow> reachable eng db'"
| group_skipped: "reachable eng db \<Longrightarrow> group_st db = Some n \<Longrightarrow>
                  reachable eng (db\<lparr>group_st := Some (n + 1)\<rparr>)"
| student_skipped: "reachable eng db \<Longrightarrow> student_st db = Some n \<Longrightarrow>
                    reachable eng (db\<lparr>student_st := Some (n + 1)\<rparr>)"

text \<open>
  An engine that refuses every parameter it has a say on and returns rows in the order
  of the model, for concrete runs.
\<close>

definition strict :: engine where
  "strict = \<lparr>binds = (\<lambda>v. False), eq_text = (\<lambda>t v. None), to_text = (\<lambda>v. None),
             to_int_array = (\<lambda>v. None), id_order = (\<lambda>ids. ids), row_order = (\<lambda>q rows. rows)\<rparr>"

subsection \<open>Concrete rosters\<close>

definition group_only_db :: database where
  "group_only_db = \<lparr>group_st = Some 2, student_st = Some 1,
                     groups = Some [(1, ascii ''IS-21'')], students = Some []\<rparr>"

definition roster_one :: database where
  "roster_one = \<lparr>group_st = Some 2, student_st = Some 2,
                  groups = Some [(1, ascii ''IS-21'')],
                  students = Some [(1, ascii ''Ivanov I.I.'', 1, [Some 4, Some 5, Some 5])]\<rparr>"

definition roster_two :: database where
  "roster_two = \<lparr>group_st = Some 2, student_st = Some 3,
                  groups = Some [(1, ascii ''IS-21'')],
                  students = Some [(1, ascii ''Ivanov I.I.'', 1, [Some 4, Some 5, Some 5]),
                                   (2, ascii ''Petrov P.P.'', 1, [Some 3])]\<rparr>"

definition roster_mixed :: database where
  "roster_mixed = \<lparr>group_st = Some 3, student_st = Some 4,
                    groups = Some [(1, ascii ''IS-21''), (2, ascii ''IS-22'')],
                    students = Some [(1, ascii ''Ivanov I.I.'', 1, [Some 4, Some 5, Some 5]),
                                     (2, ascii ''Petrov P.P.'', 2, [Some 3]),
                                     (3, ascii ''Sidorov S.S.'', 1, [Some 5])]\<rparr>"

section \<open>The command line\<close>

text \<open>
  \<open>main\<close> builds an \<open>argparse\<close> parser with the sub-commands \<open>add\<close>, \<open>display\<close> and
  \<open>select\<close> and hands it the command line, a list of tokens. The parser either leaves
  the process with an exit status (2 after a usage message, 0 after \<open>--help\<close> or
  \<open>--version\<close>) or returns a namespace, a map from attribute names to values.

  The model covers command lines in which every option is written as one of its
  declared option strings followed by its value in the next token. A token that starts
  with \<open>-\<close>, is longer than one character, is not a declared option string and is not
  a minus sign followed by decimal digits (an abbreviated option, an option joined to
  its value, \<open>--\<close>) is outside the model, as is a \<open>--group\<close> value that holds a
  character other than printable ASCII and ASCII whitespace or is longer than 4300
  characters: the parser's answer is then \<open>NotCovered\<close>.
\<close>

datatype parse_exit = Exit nat | NotCovered

type_synonym namespace = "string \<rightharpoonup> pyval"

definition is_digit :: "nat \<Rightarrow> bool" where
  "is_digit c \<longleftrightarrow> 48 \<le> c \<and> c \<le> 57"

fun negative_number :: "str \<Rightarrow> bool" where
  "negative_number (c # d # ds) = (c = 45 \<and> list_all is_digit (d # ds))"
| "negative_number _ = False"

text \<open>A token that the parser reads as an argument, not as an option.\<close>

definition is_value :: "str \<Rightarrow> bool" where
  "is_value tok =
     (case tok of [] \<Rightarrow> True | c # cs \<Rightarrow> c \<noteq> 45 \<or> cs = [] \<or> negative_number tok)"

definition is_help :: "str \<Rightarrow> bool" where
  "is_help tok \<longleftrightarrow> tok = ascii ''-h'' \<or> tok = ascii ''--help''"

subsection \<open>The built-in int\<close>

text \<open>
  \<open>int(s)\<close> on a string of printable ASCII and ASCII whitespace: surrounding
  whitespace is dropped, then come an optional sign and decimal digits, where single
  underscores may stand between digits.
\<close>

definition is_space :: "nat \<Rightarrow> bool" where
  "is_space c \<longleftrightarrow> (9 \<le> c \<and> c \<le> 13) \<or> c = 32"

definition strip :: "str \<Rightarrow> str" where
  "strip s = rev (dropWhile is_space (rev (dropWhile is_space s)))"

fun int_digits :: "nat \<Rightarrow> str \<Rightarrow> nat option" where
  "int_digits acc [] = Some acc"
| "int_digits acc [c] = (if is_digit c then Some (acc * 10 + (c - 48)) else None)"
| "int_digits acc (c # d # ds) =
     (if is_digit c then int_digits (acc * 10 + (c - 48)) (d # ds)
      else if c = 95 \<and> is_digit d then int_digits acc (d # ds)
      else None)"

definition int_unsigned :: "str \<Rightarrow> nat option" where
  "int_unsigned s =
     (case s of [] \<Rightarrow> None | c # cs \<Rightarrow> if is_digit c then int_digits 0 s else None)"

definition py_int :: "str \<Rightarrow> int option" where
  "py_int s =
     (case strip s of
        [] \<Rightarrow> None
      | c # cs \<Rightarrow>
          if c = 45 then map_option (\<lambda>n. - int n) (int_unsigned cs)
          else if c = 43 then map_option int (int_unsigned cs)
          else map_option int (int_unsigned (c # cs)))"

definition in_fragment :: "str \<Rightarrow> bool" where
  "in_fragment v \<longleftrightarrow>
     list_all (\<lambda>c. (9 \<le> c \<and> c \<le> 13) \<or> (32 \<le> c \<and> c < 127)) v \<and> length v \<le> 4300"

subsection \<open>The sub-command parsers\<close>

text \<open>
  The option strings of a sub-command with the attribute each one sets. \<open>--db\<close> comes
  from the parent parser \<open>file_parser\<close>.
\<close>

definition file_options :: "(str \<times> string) list" where
  "file_options = [(ascii ''--db'', ''db'')]"

definition add_options :: "(str \<times> string) list" where
  "add_options = file_options @
     [(ascii ''-n'', ''name''), (ascii ''--name'', ''name''),
      (ascii ''-g'', ''group''), (ascii ''--group'', ''group''),
      (ascii ''-gr'', ''grade''), (ascii ''--grade'', ''grade'')]"

definition select_options :: "(str \<times> string) list" where
  "select_options = file_options @ [(ascii ''-s'', ''select''), (ascii ''--select'', ''select'')]"

text \<open>The value stored for an option: \<open>--group\<close> has \<open>type=int\<close>, the others none.\<close>

definition get_value :: "string \<Rightarrow> str \<Rightarrow> parse_exit + pyval" where
  "get_value dest v =
     (if dest = ''group'' then
        (if in_fragment v then
           (case py_int v of None \<Rightarrow> Inl (Exit 2) | Some k \<Rightarrow> Inr (PyInt k))
         else Inl NotCovered)
      else Inr (PyStr v))"

text \<open>
  The tokens of a sub-command, left to right. The state is the namespace, the attributes
  set so far, and whether a stray argument was met (which is reported once the rest has
  been read).
\<close>

fun consume ::
  "(str \<times> string) list \<Rightarrow> namespace \<times> string list \<times> bool \<Rightarrow> str list \<Rightarrow>
   parse_exit + namespace \<times> string list \<times> bool" where
  "consume opts st [] = Inr st"
| "consume opts (ns, seen, extras) (tok # rest) =
     (if is_value tok then consume opts (ns, seen, True) rest
      else if is_help tok then Inl (Exit 0)
      else
        (case map_of opts tok of
           None \<Rightarrow> Inl NotCovered
         | Some dest \<Rightarrow>
             (case rest of
                [] \<Rightarrow> Inl (Exit 2)
              | v # rest' \<Rightarrow>
                  if is_value v then
                    (case get_value dest v of
                       Inl e \<Rightarrow> Inl e
                     | Inr x \<Rightarrow> consume opts (ns(dest \<mapsto> x), dest # seen, extras) rest')
                  else if is_help v \<or> map_of opts v \<noteq> None then Inl (Exit 2)
                  else Inl NotCovered)))"

definition subparser ::
  "(str \<times> string) list \<Rightarrow> string list \<Rightarrow> namespace \<Rightarrow> str list \<Rightarrow> parse_exit + namespace" where
  "subparser opts required ns toks =
     (case consume opts (ns, [], False) toks of
        Inl e \<Rightarrow> Inl e
      | Inr (ns', seen, extras) \<Rightarrow>
          if \<not> list_all (\<lambda>dest. dest \<in> set seen) required then Inl (Exit 2)
          else if extras then Inl (Exit 2)
          else Inr ns')"

text \<open>
  \<open>parser.parse_args\<close>. \<open>default_db\<close> is the default of \<open>--db\<close>, the path of
  \<open>students.db\<close> in the working directory. Only a sub-command parser defines the
  attribute \<open>db\<close>.
\<close>

definition parse_args :: "str \<Rightarrow> str list \<Rightarrow> parse_exit + namespace" where
  "parse_args default_db argv =
     (case argv of
        [] \<Rightarrow> Inr [''command'' \<mapsto> PyNone]
      | tok # rest \<Rightarrow>
          if is_value tok then
            (if tok = ascii ''add'' then
               subparser add_options [''name'', ''grade'']
                 [''command'' \<mapsto> PyStr tok, ''db'' \<mapsto> PyStr default_db, ''name'' \<mapsto> PyNone,
                  ''group'' \<mapsto> PyNone, ''grade'' \<mapsto> PyNone] rest
             else if tok = ascii ''display'' then
               subparser file_options []
                 [''command'' \<mapsto> PyStr tok, ''db'' \<mapsto> PyStr default_db] rest
             else if tok = ascii ''select'' then
               subparser select_options [''select'']
                 [''command'' \<mapsto> PyStr tok, ''db'' \<mapsto> PyStr default_db,
                  ''select'' \<mapsto> PyNone] rest
             else Inl (Exit 2))
          else if is_help tok \<or> tok = ascii ''--version'' then Inl (Exit 0)
          else Inl NotCovered)"

section \<open>main\<close>

text \<open>
  How a run ends: it returns (exit status 0), the parser leaves with a status, or an
  exception is not caught. \<open>db\<close> is the state of the database file the run works on, the
  one \<open>--db\<close> names. After a storage failure the state of the file is not given.
\<close>

datatype outcome =
    Finished database "str list"
  | Exited nat database
  | Crashed error "database option" "str list"
  | Outside

definition getattr :: "namespace \<Rightarrow> string \<Rightarrow> error + pyval" where
  "getattr ns a = (case ns a of None \<Rightarrow> Inl AttributeError | Some v \<Rightarrow> Inr v)"

text \<open>The arguments of the call \<open>add_student(db_path, args.name, args.group, args.grade)\<close>.\<close>

definition add_arguments :: "namespace \<Rightarrow> error + pyval \<times> pyval \<times> pyval" where
  "add_arguments args =
     (case getattr args ''name'' of
        Inl e \<Rightarrow> Inl e
      | Inr nm \<Rightarrow>
          (case getattr args ''group'' of
             Inl e \<Rightarrow> Inl e
           | Inr g \<Rightarrow>
               (case getattr args ''grade'' of
                  Inl e \<Rightarrow> Inl e
                | Inr gr \<Rightarrow> Inr (nm, g, gr))))"

definition is_list :: "pyval \<Rightarrow> bool" where
  "is_list v = (case v of PyList xs \<Rightarrow> True | _ \<Rightarrow> False)"

definition show_students :: "database \<Rightarrow> error + student list \<Rightarrow> outcome" where
  "show_students db res =
     (case res of
        Inl e \<Rightarrow> Crashed e (Some db) []
      | Inr staff \<Rightarrow>
          (case display_students staff of
             (out, None) \<Rightarrow> Finished db out
           | (out, Some e) \<Rightarrow> Crashed e (Some db) out))"

definition main :: "engine \<Rightarrow> str \<Rightarrow> str list \<Rightarrow> database \<Rightarrow> outcome" where
  "main eng default_db argv db =
     (case parse_args default_db argv of
        Inl NotCovered \<Rightarrow> Outside
      | Inl (Exit status) \<Rightarrow> Exited status db
      | Inr args \<Rightarrow>
          (case getattr args ''db'' of
             Inl e \<Rightarrow> Crashed e (Some db) []
           | Inr db_path \<Rightarrow>
               (let db1 = create_db db in
                if args ''command'' = Some (PyStr (ascii ''add'')) then
                  (case add_arguments args of
                     Inl e \<Rightarrow> Crashed e (Some db1) []
                   | Inr (nm, g, gr) \<Rightarrow>
                       (case add_student eng db1 nm g gr of
                          Inl e \<Rightarrow> Crashed e None []
                        | Inr db2 \<Rightarrow> Finished db2 []))
                else if args ''command'' = Some (PyStr (ascii ''display'')) then
                  show_students db1 (select_all eng db1)
                else if args ''command'' = Some (PyStr (ascii ''select'')) then
                  (case getattr args ''select'' of
                     Inl e \<Rightarrow> Crashed e (Some db1) []
                   | Inr sel \<Rightarrow> show_students db1 (select_by_grade eng db1 sel))
                else Finished db1 [])))"

definition students_db :: str where
  "students_db = ascii ''/home/user/students.db''"

definition add_no_group :: "str list" where
  "add_no_group = [ascii ''add'', ascii ''--name'', ascii ''A'', ascii ''--grade'', ascii ''5'']"

definition add_full :: "str list" where
  "add_full = [ascii ''add'', ascii ''--name'', ascii ''A'', ascii ''--group'', ascii ''1'',
               ascii ''--grade'', ascii ''5'']"


text \<open>
  An engine that turns an integer parameter into its decimal text, reads one list
  literal and returns rows in reverse, for concrete runs.
\<close>

definition listing :: engine where
  "listing =
     \<lparr>binds = (\<lambda>v. case v of PyInt i \<Rightarrow> True | _ \<Rightarrow> False),
      eq_text = (\<lambda>t v. case v of PyInt i \<Rightarrow> Some (t = str_int i) | _ \<Rightarrow> None),
      to_text = (\<lambda>v. case v of PyInt i \<Rightarrow> Some (str_int i) | _ \<Rightarrow> None),
      to_int_array = (\<lambda>v. if v = PyStr (ascii ''[4, 5, 5]'')
                           then Some [Some 4, Some 5, Some 5] else None),
      id_order = rev, row_order = (\<lambda>q. rev)\<rparr>"

definition add_listed :: "str list" where
  "add_listed = [ascii ''add'', ascii ''--name'', ascii ''A'', ascii ''--group'', ascii ''1'',
                 ascii ''--grade'', ascii ''[4, 5, 5]'']"

definition full_args :: namespace where
  "full_args = [''command'' \<mapsto> PyStr (ascii ''add''), ''db'' \<mapsto> PyStr students_db,
                ''name'' \<mapsto> PyStr (ascii ''A''), ''group'' \<mapsto> PyInt 1,
                ''grade'' \<mapsto> PyStr (ascii ''5'')]"

definition listed_args :: namespace where
  "listed_args = [''command'' \<mapsto> PyStr (ascii ''add''), ''db'' \<mapsto> PyStr students_db,
                  ''name'' \<mapsto> PyStr (ascii ''A''), ''group'' \<mapsto> PyInt 1,
                  ''grade'' \<mapsto> PyStr (ascii ''[4, 5, 5]'')]"

definition listed_db :: database where
  "listed_db = \<lparr>group_st = Some 2, student_st = Some 2,
                 groups = Some [(1, ascii ''1'')],
                 students = Some [(1, ascii ''A'', 1, [Some 4, Some 5, Some 5])]\<rparr>"

section \<open>Properties of the display routine\<close>







section \<open>Properties of the storage layer\<close>

lemma where_rows_subset: "where_rows p xs = Some ys \<Longrightarrow> set ys \<subseteq> set xs"
proof (induction xs arbitrary: ys)
  case Nil
  then show ?case by simp
next
  case (Cons x xs)
  then show ?case by (auto split: option.splits if_splits)
qed

lemma where_rows_filter:
  "(\<And>x. x \<in> set xs \<Longrightarrow> p x = Some (q x)) \<Longrightarrow> where_rows p xs = Some (filter q xs)"
  by (induction xs) simp_all

lemma where_rows_Some:
  "where_rows (\<lambda>r. Some (q r)) xs = Some (filter q xs)"
  by (rule where_rows_filter) simp

lemma permuted_mset [simp]: "mset (permuted f xs) = mset xs"
  by (simp add: permuted_def)

lemma permuted_set [simp]: "set (permuted f xs) = set xs"
  using permuted_mset [of f xs] by (metis set_mset_mset)

lemma permuted_Nil [simp]: "permuted f [] = []"
  by (auto simp: permuted_def)

lemma permuted_single [simp]: "permuted f [x] = [x]"
  by (auto simp: permuted_def)

lemma permuted_id [simp]: "permuted (\<lambda>xs. xs) xs = xs"
  by (simp add: permuted_def)

lemma consistent_iff:
  "consistent db \<longleftrightarrow>
     (\<exists>gn sn grows srows.
        group_st db = Some gn \<and> student_st db = Some sn \<and>
        groups db = Some grows \<and> students db = Some srows \<and>
        1 \<le> gn \<and> 1 \<le> sn \<and> distinct (map fst grows) \<and> distinct (map fst srows) \<and>
        (\<forall>r\<in>set grows. fst r < gn) \<and> (\<forall>r\<in>set srows. fst r < sn) \<and>
        (\<forall>r\<in>set srows. fst (snd (snd r)) \<in> fst ` set grows))"
  by (auto simp: consistent_def list_all_iff split: option.splits)

lemma consistentI:
  assumes "group_st db = Some gn" "student_st db = Some sn"
    "groups db = Some grows" "students db = Some srows"
    "1 \<le> gn" "1 \<le> sn" "distinct (map fst grows)" "distinct (map fst srows)"
    "\<forall>r\<in>set grows. fst r < gn" "\<forall>r\<in>set srows. fst r < sn"
    "\<forall>r\<in>set srows. fst (snd (snd r)) \<in> fst ` set grows"
  shows "consistent db"
  unfolding consistent_iff using assms by blast

lemma consistentE:
  assumes "consistent db"
  obtains gn sn grows srows where
    "group_st db = Some gn" "student_st db = Some sn"
    "groups db = Some grows" "students db = Some srows"
    "1 \<le> gn" "1 \<le> sn" "distinct (map fst grows)" "distinct (map fst srows)"
    "\<forall>r\<in>set grows. fst r < gn" "\<forall>r\<in>set srows. fst r < sn"
    "\<forall>r\<in>set srows. fst (snd (snd r)) \<in> fst ` set grows"
  using assms unfolding consistent_iff by blast

lemma resolve_group_cases:
  assumes "resolve_group eng db g = Inr (db', gid)"
  obtains (found) grows where
      "groups db = Some grows" "db' = db" "gid \<in> fst ` set grows"
  | (inserted) grows n t where
      "groups db = Some grows" "group_st db = Some n" "as_text eng g = Some t"
      "int32 n" "n \<notin> fst ` set grows" "gid = n"
      "db' = db\<lparr>group_st := Some (n + 1), groups := Some (grows @ [(n, t)])\<rparr>"
proof -
  from assms obtain grows where g: "groups db = Some grows"
    by (auto simp: resolve_group_def split: option.splits)
  from assms g have p: "text_param eng g"
    by (auto simp: resolve_group_def split: if_splits)
  from assms g p obtain ys where w: "where_rows (\<lambda>r. title_eq eng (snd r) g) grows = Some ys"
    by (auto simp: resolve_group_def split: option.splits)
  show thesis
  proof (cases "permuted (id_order eng) (map fst ys)")
    case Nil
    with assms g p w show thesis
      by (auto simp: resolve_group_def split: option.splits if_splits intro: inserted)
  next
    case (Cons i rest)
    then have "i \<in> set (permuted (id_order eng) (map fst ys))" by simp
    then have "i \<in> fst ` set ys" by simp
    with where_rows_subset [OF w] have "i \<in> fst ` set grows" by auto
    with assms g p w Cons show thesis
      by (auto simp: resolve_group_def intro: found)
  qed
qed

lemma insert_student_cases:
  assumes "insert_student eng db nm gid gr = Inr db'"
  obtains srows grows n a s where
    "students db = Some srows" "groups db = Some grows" "student_st db = Some n"
    "as_grade eng gr = Some a" "int32 n" "n \<notin> fst ` set srows" "gid \<in> fst ` set grows"
    "db' = db\<lparr>student_st := Some (n + 1), students := Some (srows @ [(n, s, gid, a)])\<rparr>"
    "as_text eng nm = Some s"
proof -
  from assms obtain srows grows n s a where
    "students db = Some srows" "groups db = Some grows" "student_st db = Some n"
    "as_text eng nm = Some s" "as_grade eng gr = Some a"
    by (simp add: insert_student_def split: option.splits)
  with assms that [of srows grows n a s] show thesis
    by (simp add: insert_student_def split: if_splits)
qed

lemma resolve_group_consistent:
  assumes "consistent db" and "resolve_group eng db g = Inr (db', gid)"
  shows "consistent db'"
  using assms(2)
proof (cases rule: resolve_group_cases)
  case (found grows)
  with assms(1) show ?thesis by simp
next
  case (inserted grows n t)
  from assms(1) obtain gn sn grows0 srows where c:
    "group_st db = Some gn" "student_st db = Some sn"
    "groups db = Some grows0" "students db = Some srows"
    "1 \<le> gn" "1 \<le> sn" "distinct (map fst grows0)" "distinct (map fst srows)"
    "\<forall>r\<in>set grows0. fst r < gn" "\<forall>r\<in>set srows. fst r < sn"
    "\<forall>r\<in>set srows. fst (snd (snd r)) \<in> fst ` set grows0"
    by (rule consistentE)
  from c(1,3) inserted(1,2) have e: "gn = n" "grows0 = grows" by simp_all
  show ?thesis
  proof (rule consistentI)
    show "group_st db' = Some (n + 1)" by (simp add: inserted(7))
    show "student_st db' = Some sn" by (simp add: inserted(7) c(2))
    show "groups db' = Some (grows @ [(n, t)])" by (simp add: inserted(7))
    show "students db' = Some srows" by (simp add: inserted(7) c(4))
    show "1 \<le> n + 1" using c(5) e(1) by simp
    show "1 \<le> sn" by (rule c(6))
    show "distinct (map fst (grows @ [(n, t)]))" using c(7) e(2) inserted(5) by simp
    show "distinct (map fst srows)" by (rule c(8))
    show "\<forall>r\<in>set (grows @ [(n, t)]). fst r < n + 1" using c(9) e by auto
    show "\<forall>r\<in>set srows. fst r < sn" by (rule c(10))
    show "\<forall>r\<in>set srows. fst (snd (snd r)) \<in> fst ` set (grows @ [(n, t)])"
      using c(11) e(2) by auto
  qed
qed

lemma insert_student_consistent:
  assumes "consistent db" and "insert_student eng db nm gid gr = Inr db'"
  shows "consistent db'"
  using assms(2)
proof (cases rule: insert_student_cases)
  case (1 srows grows n a s)
  from assms(1) obtain gn sn grows0 srows0 where c:
    "group_st db = Some gn" "student_st db = Some sn"
    "groups db = Some grows0" "students db = Some srows0"
    "1 \<le> gn" "1 \<le> sn" "distinct (map fst grows0)" "distinct (map fst srows0)"
    "\<forall>r\<in>set grows0. fst r < gn" "\<forall>r\<in>set srows0. fst r < sn"
    "\<forall>r\<in>set srows0. fst (snd (snd r)) \<in> fst ` set grows0"
    by (rule consistentE)
  from c(2,3,4) 1(1,2,3) have e: "sn = n" "grows0 = grows" "srows0 = srows" by simp_all
  show ?thesis
  proof (rule consistentI)
    show "group_st db' = Some gn" by (simp add: 1(8) c(1))
    show "student_st db' = Some (n + 1)" by (simp add: 1(8))
    show "groups db' = Some grows" by (simp add: 1(8) 1(2))
    show "students db' = Some (srows @ [(n, s, gid, a)])" by (simp add: 1(8))
    show "1 \<le> gn" by (rule c(5))
    show "1 \<le> n + 1" using c(6) e(1) by simp
    show "distinct (map fst grows)" using c(7) e(2) by simp
    show "distinct (map fst (srows @ [(n, s, gid, a)]))" using c(8) e(3) 1(6) by simp
    show "\<forall>r\<in>set grows. fst r < gn" using c(9) e(2) by simp
    show "\<forall>r\<in>set (srows @ [(n, s, gid, a)]). fst r < n + 1" using c(10) e by auto
    show "\<forall>r\<in>set (srows @ [(n, s, gid, a)]). fst (snd (snd r)) \<in> fst ` set grows"
      using c(11) e(2,3) 1(7) by auto
  qed
qed

lemma add_student_consistent:
  assumes "consistent db" and "add_student eng db nm g gr = Inr db'"
  shows "consistent db'"
proof -
  from assms(2) obtain db1 gid where
    r: "resolve_group eng db g = Inr (db1, gid)" and i: "insert_student eng db1 nm gid gr = Inr db'"
    by (auto simp: add_student_def split: sum.splits)
  from resolve_group_consistent [OF assms(1) r] i show ?thesis
    by (rule insert_student_consistent)
qed

lemma create_db_empty_file: "consistent (create_db empty_file)"
  by (rule consistentI [where gn = 1 and sn = 1 and grows = "[]" and srows = "[]"])
     (simp_all add: create_db_def empty_file_def)

lemma create_db_consistent: "consistent db \<Longrightarrow> create_db db = db"
  by (erule consistentE) (simp add: create_db_def)

lemma consistent_references_ok: "consistent db \<Longrightarrow> references_ok db"
  by (auto simp: consistent_iff references_ok_def list_all_iff)

lemma skip_group_consistent:
  assumes "consistent db" and "group_st db = Some n"
  shows "consistent (db\<lparr>group_st := Some (n + 1)\<rparr>)"
proof -
  from assms(1) obtain gn sn grows srows where c:
    "group_st db = Some gn" "student_st db = Some sn"
    "groups db = Some grows" "students db = Some srows"
    "1 \<le> gn" "1 \<le> sn" "distinct (map fst grows)" "distinct (map fst srows)"
    "\<forall>r\<in>set grows. fst r < gn" "\<forall>r\<in>set srows. fst r < sn"
    "\<forall>r\<in>set srows. fst (snd (snd r)) \<in> fst ` set grows"
    by (rule consistentE)
  from c(1) assms(2) have e: "gn = n" by simp
  show ?thesis
  proof (rule consistentI)
    show "group_st (db\<lparr>group_st := Some (n + 1)\<rparr>) = Some (n + 1)" by simp
    show "student_st (db\<lparr>group_st := Some (n + 1)\<rparr>) = Some sn" by (simp add: c(2))
    show "groups (db\<lparr>group_st := Some (n + 1)\<rparr>) = Some grows" by (simp add: c(3))
    show "students (db\<lparr>group_st := Some (n + 1)\<rparr>) = Some srows" by (simp add: c(4))
    show "1 \<le> n + 1" using c(5) e by simp
    show "\<forall>r\<in>set grows. fst r < n + 1" using c(9) e by auto
  qed (rule c)+
qed

lemma skip_student_consistent:
  assumes "consistent db" and "student_st db = Some n"
  shows "consistent (db\<lparr>student_st := Some (n + 1)\<rparr>)"
proof -
  from assms(1) obtain gn sn grows srows where c:
    "group_st db = Some gn" "student_st db = Some sn"
    "groups db = Some grows" "students db = Some srows"
    "1 \<le> gn" "1 \<le> sn" "distinct (map fst grows)" "distinct (map fst srows)"
    "\<forall>r\<in>set grows. fst r < gn" "\<forall>r\<in>set srows. fst r < sn"
    "\<forall>r\<in>set srows. fst (snd (snd r)) \<in> fst ` set grows"
    by (rule consistentE)
  from c(2) assms(2) have e: "sn = n" by simp
  show ?thesis
  proof (rule consistentI)
    show "group_st (db\<lparr>student_st := Some (n + 1)\<rparr>) = Some gn" by (simp add: c(1))
    show "student_st (db\<lparr>student_st := Some (n + 1)\<rparr>) = Some (n + 1)" by simp
    show "groups (db\<lparr>student_st := Some (n + 1)\<rparr>) = Some grows" by (simp add: c(3))
    show "students (db\<lparr>student_st := Some (n + 1)\<rparr>) = Some srows" by (simp add: c(4))
    show "1 \<le> n + 1" using c(6) e by simp
    show "\<forall>r\<in>set srows. fst r < n + 1" using c(10) e by auto
  qed (rule c)+
qed

lemma empty_file_no_tables:
  "resolve_group eng empty_file g = Inl StorageError"
  "add_student eng empty_file nm g gr = Inl StorageError"
  by (simp_all add: add_student_def resolve_group_def empty_file_def)

lemma reachable_consistent: "reachable eng db \<Longrightarrow> db = empty_file \<or> consistent db"
proof (induction rule: reachable.induct)
  case start
  then show ?case by simp
next
  case (created db)
  then show ?case using create_db_empty_file create_db_consistent by auto
next
  case (added db nm g gr db')
  then show ?case
    using add_student_consistent [of db eng nm g gr db'] empty_file_no_tables(2) [of eng nm g gr]
    by auto
next
  case (group_only db g db' gid)
  then show ?case
    using resolve_group_consistent [of db eng g db' gid] empty_file_no_tables(1) [of eng g]
    by auto
next
  case (group_skipped db n)
  then show ?case using skip_group_consistent [of db n] by (auto simp: empty_file_def)
next
  case (student_skipped db n)
  then show ?case using skip_student_consistent [of db n] by (auto simp: empty_file_def)
qed

text \<open>
  Claim C9. \<open>create_db\<close> cannot fail, and running it a second time leaves the file,
  its sequences and its tables, as the first run left it.
\<close>

theorem create_db_idempotent: "create_db (create_db db) = create_db db"
  by (simp add: create_db_def split: option.splits)

text \<open>
  Claim C7. In every reachable state of the file each student row references a group
  row, and the identifier that the group lookup of \<open>add_student\<close> hands to the student
  insert is the identifier of a group row, so that the foreign key holds at the insert.
\<close>

theorem students_reference_groups:
  "(reachable eng db \<longrightarrow> references_ok db) \<and>
   (resolve_group eng db0 g = Inr (db1, gid) \<longrightarrow>
      (\<exists>grows. groups db1 = Some grows \<and> gid \<in> fst ` set grows))"
proof (intro conjI impI)
  assume "reachable eng db"
  then have "db = empty_file \<or> consistent db" by (rule reachable_consistent)
  then show "references_ok db"
    by (auto simp: references_ok_def empty_file_def dest: consistent_references_ok)
next
  assume "resolve_group eng db0 g = Inr (db1, gid)"
  then show "\<exists>grows. groups db1 = Some grows \<and> gid \<in> fst ` set grows"
    by (cases rule: resolve_group_cases) auto
qed


lemma resolve_first:
  "resolve_group eng (create_db empty_file) (PyStr (ascii ''IS-21'')) = Inr (group_only_db, 1)"
  by (simp add: resolve_group_def create_db_def empty_file_def group_only_db_def int32_def
      plain_def encodable_def ascii_def)

lemma add_first:
  "add_student eng (create_db empty_file) (PyStr (ascii ''Ivanov I.I.'')) (PyStr (ascii ''IS-21''))
     (PyList [Some 4, Some 5, Some 5]) = Inr roster_one"
  unfolding add_student_def resolve_first
  by (simp add: insert_student_def group_only_db_def roster_one_def int32_def plain_def
      encodable_def ascii_def)

lemma add_second:
  "add_student eng roster_one (PyStr (ascii ''Petrov P.P.'')) (PyStr (ascii ''IS-21''))
     (PyList [Some 3]) = Inr roster_two"
  by (simp add: add_student_def resolve_group_def insert_student_def roster_one_def
      roster_two_def int32_def plain_def encodable_def ascii_def)

lemma reachable_roster_one: "reachable eng roster_one"
  using reachable.added [OF reachable.created [OF reachable.start] add_first] .

text \<open>A run that reaches a roster with one student.\<close>

theorem students_reference_groups_witness:
  "reachable strict roster_one \<and> references_ok roster_one \<and>
   resolve_group strict (create_db empty_file) (PyStr (ascii ''IS-21'')) = Inr (group_only_db, 1) \<and>
   (\<exists>grows. groups group_only_db = Some grows \<and> 1 \<in> fst ` set grows)"
  using students_reference_groups [of strict roster_one "create_db empty_file"
      "PyStr (ascii ''IS-21'')" group_only_db 1]
    reachable_roster_one [of strict] resolve_first [of strict]
  by simp

lemma resolve_group_str:
  "groups db = Some grows \<Longrightarrow> plain t \<Longrightarrow>
   resolve_group eng db (PyStr t) =
     (case permuted (id_order eng) (map fst (filter (\<lambda>r. snd r = t) grows)) of
        gid # _ \<Rightarrow> Inr (db, gid)
      | [] \<Rightarrow>
          (case group_st db of
             None \<Rightarrow> Inl StorageError
           | Some n \<Rightarrow>
               if int32 n \<and> n \<notin> fst ` set grows
               then Inr (db\<lparr>group_st := Some (n + 1), groups := Some (grows @ [(n, t)])\<rparr>, n)
               else Inl StorageError))"
  by (simp add: resolve_group_def where_rows_Some split: list.splits option.splits)

lemma resolve_group_unencodable:
  "\<not> encodable t \<Longrightarrow> resolve_group eng db (PyStr t) = Inl StorageError"
  by (simp add: resolve_group_def plain_def split: option.splits)

lemma permuted_hd:
  assumes "permuted f xs = y # ys"
  shows "y \<in> set xs"
proof -
  from assms have "y \<in> set (permuted f xs)" by simp
  then show ?thesis by simp
qed

lemma permuted_empty_iff: "permuted f xs = [] \<longleftrightarrow> xs = []"
proof
  assume "permuted f xs = []"
  then have "mset (permuted f xs) = {#}" by simp
  then show "xs = []" by simp
qed simp

lemma add_student_same_title:
  assumes a: "add_student eng db nm (PyStr t) gr = Inr db'"
    and g: "groups db = Some grows"
    and p: "plain t"
    and u: "length (filter (\<lambda>r. snd r = t) grows) \<le> 1"
  shows "\<exists>gid grows' srows sid s a.
           groups db' = Some grows' \<and> filter (\<lambda>r. snd r = t) grows' = [(gid, t)] \<and>
           (filter (\<lambda>r. snd r = t) grows = [] \<or> grows' = grows) \<and>
           students db = Some srows \<and> students db' = Some (srows @ [(sid, s, gid, a)])"
proof -
  from a obtain db1 gid where
    r: "resolve_group eng db (PyStr t) = Inr (db1, gid)" and
    i: "insert_student eng db1 nm gid gr = Inr db'"
    by (auto simp: add_student_def split: sum.splits)
  from i obtain srows grows1 n a s where
    s0: "students db1 = Some srows" "groups db1 = Some grows1"
       "db' = db1\<lparr>student_st := Some (n + 1), students := Some (srows @ [(n, s, gid, a)])\<rparr>"
    by (rule insert_student_cases)
  show ?thesis
  proof (cases "filter (\<lambda>r. snd r = t) grows")
    case Nil
    with r g p obtain m where
      d: "db1 = db\<lparr>group_st := Some (m + 1), groups := Some (grows @ [(m, t)])\<rparr>" "gid = m"
      by (auto simp: resolve_group_str split: option.splits if_splits)
    from d(1) have "groups db1 = Some (grows @ [(m, t)])" "students db1 = students db"
      by simp_all
    with s0(1,2) have e: "grows1 = grows @ [(m, t)]" "students db = Some srows" by simp_all
    from s0(3) e(1) s0(2) have 1: "groups db' = Some (grows @ [(gid, t)])"
      by (simp add: d(2))
    from Nil have 2: "filter (\<lambda>r. snd r = t) (grows @ [(gid, t)]) = [(gid, t)]" by simp
    from s0(3) have 3: "students db' = Some (srows @ [(n, s, gid, a)])" by simp
    from 1 2 3 e(2) Nil show ?thesis by blast
  next
    case (Cons x xs)
    with u have xs: "xs = []" by simp
    from Cons have "x \<in> set (filter (\<lambda>r. snd r = t) grows)" by simp
    then have x: "snd x = t" by simp
    from r g p Cons xs have d: "db1 = db" "gid = fst x" by (simp_all add: resolve_group_str)
    from x d(2) have xe: "x = (gid, t)" by (cases x) simp
    from s0(2,3) d(1) g have 1: "groups db' = Some grows" by simp
    from Cons xs xe have 2: "filter (\<lambda>r. snd r = t) grows = [(gid, t)]" by simp
    from s0(3) have 3: "students db' = Some (srows @ [(n, s, gid, a)])" by simp
    from s0(1) d(1) have 4: "students db = Some srows" by simp
    from 1 2 3 4 show ?thesis by blast
  qed
qed

text \<open>
  Claim C1. Given a title (a plain string), the group lookup of \<open>add_student\<close> returns
  the identifier of a group row with exactly that title when there is one, and
  otherwise inserts a row made of the next value of \<open>group_st\<close> and the title, and
  returns that value; a title that cannot be encoded makes the lookup raise. Hence, in a
  file where at most one group row has the title, two runs of \<open>add_student\<close> with the
  title leave exactly one group row with it, and the two student rows they append both
  carry its identifier.
\<close>

theorem group_resolver:
  "(groups db = Some grows \<and> plain t \<and> (\<exists>r\<in>set grows. snd r = t) \<longrightarrow>
      (\<exists>r\<in>set grows. snd r = t \<and> resolve_group eng db (PyStr t) = Inr (db, fst r))) \<and>
   (groups db = Some grows \<and> plain t \<and> (\<forall>r\<in>set grows. snd r \<noteq> t) \<and>
    group_st db = Some n \<and> int32 n \<and> n \<notin> fst ` set grows \<longrightarrow>
      resolve_group eng db (PyStr t) =
        Inr (db\<lparr>group_st := Some (n + 1), groups := Some (grows @ [(n, t)])\<rparr>, n)) \<and>
   (\<not> encodable t \<longrightarrow> resolve_group eng db (PyStr t) = Inl StorageError) \<and>
   (groups db = Some grows \<and> plain t \<and> length (filter (\<lambda>r. snd r = t) grows) \<le> 1 \<and>
    add_student eng db nm1 (PyStr t) gr1 = Inr db1 \<and>
    add_student eng db1 nm2 (PyStr t) gr2 = Inr db2 \<longrightarrow>
      (\<exists>gid grows2 srows s1 n1 a1 s2 n2 a2.
         groups db2 = Some grows2 \<and> filter (\<lambda>r. snd r = t) grows2 = [(gid, t)] \<and>
         students db = Some srows \<and>
         students db2 = Some (srows @ [(s1, n1, gid, a1), (s2, n2, gid, a2)])))"
proof (intro conjI impI)
  assume h: "groups db = Some grows \<and> plain t \<and> (\<exists>r\<in>set grows. snd r = t)"
  then have ne: "map fst (filter (\<lambda>r. snd r = t) grows) \<noteq> []"
    by (auto simp: filter_empty_conv)
  then obtain i rest where
    c: "permuted (id_order eng) (map fst (filter (\<lambda>r. snd r = t) grows)) = i # rest"
    using permuted_empty_iff [of "id_order eng" "map fst (filter (\<lambda>r. snd r = t) grows)"]
    by (cases "permuted (id_order eng) (map fst (filter (\<lambda>r. snd r = t) grows))") auto
  from permuted_hd [OF c] obtain r where r: "r \<in> set grows" "snd r = t" "fst r = i" by auto
  from h c have "resolve_group eng db (PyStr t) = Inr (db, i)"
    by (simp add: resolve_group_str)
  with r show "\<exists>r\<in>set grows. snd r = t \<and> resolve_group eng db (PyStr t) = Inr (db, fst r)"
    by blast
next
  assume h: "groups db = Some grows \<and> plain t \<and> (\<forall>r\<in>set grows. snd r \<noteq> t) \<and>
    group_st db = Some n \<and> int32 n \<and> n \<notin> fst ` set grows"
  then have "filter (\<lambda>r. snd r = t) grows = []" by (simp add: filter_empty_conv)
  with h show "resolve_group eng db (PyStr t) =
        Inr (db\<lparr>group_st := Some (n + 1), groups := Some (grows @ [(n, t)])\<rparr>, n)"
    by (simp add: resolve_group_str)
next
  assume "\<not> encodable t"
  then show "resolve_group eng db (PyStr t) = Inl StorageError"
    by (rule resolve_group_unencodable)
next
  assume h: "groups db = Some grows \<and> plain t \<and> length (filter (\<lambda>r. snd r = t) grows) \<le> 1 \<and>
    add_student eng db nm1 (PyStr t) gr1 = Inr db1 \<and>
    add_student eng db1 nm2 (PyStr t) gr2 = Inr db2"
  from h add_student_same_title [of eng db nm1 t gr1 db1 grows]
  obtain gid grows1 srows s1 n1 a1 where
    f: "groups db1 = Some grows1" "filter (\<lambda>r. snd r = t) grows1 = [(gid, t)]"
       "students db = Some srows" "students db1 = Some (srows @ [(s1, n1, gid, a1)])"
    by blast
  from f(2) have "length (filter (\<lambda>r. snd r = t) grows1) \<le> 1" by simp
  with h f(1) add_student_same_title [of eng db1 nm2 t gr2 db2 grows1]
  obtain gid' grows2 srows' s2 n2 a2 where
    s: "groups db2 = Some grows2" "filter (\<lambda>r. snd r = t) grows2 = [(gid', t)]"
       "filter (\<lambda>r. snd r = t) grows1 = [] \<or> grows2 = grows1"
       "students db1 = Some srows'" "students db2 = Some (srows' @ [(s2, n2, gid', a2)])"
    by blast
  from s(3) f(2) have "grows2 = grows1" by simp
  with s(2) f(2) have "gid' = gid" by simp
  with s f show "\<exists>gid grows2 srows s1 n1 a1 s2 n2 a2.
         groups db2 = Some grows2 \<and> filter (\<lambda>r. snd r = t) grows2 = [(gid, t)] \<and>
         students db = Some srows \<and>
         students db2 = Some (srows @ [(s1, n1, gid, a1), (s2, n2, gid, a2)])"
    by auto
qed

theorem group_resolver_witness:
  "groups roster_one = Some [(1, ascii ''IS-21'')] \<and> plain (ascii ''IS-21'') \<and>
   resolve_group strict roster_one (PyStr (ascii ''IS-21'')) = Inr (roster_one, 1) \<and>
   groups (create_db empty_file) = Some [] \<and>
   group_st (create_db empty_file) = Some 1 \<and> int32 1 \<and>
   resolve_group strict (create_db empty_file) (PyStr (ascii ''IS-21'')) = Inr (group_only_db, 1) \<and>
   resolve_group strict roster_one (PyStr [56575]) = Inl StorageError \<and>
   add_student strict (create_db empty_file) (PyStr (ascii ''Ivanov I.I.''))
     (PyStr (ascii ''IS-21'')) (PyList [Some 4, Some 5, Some 5]) = Inr roster_one \<and>
   add_student strict roster_one (PyStr (ascii ''Petrov P.P.'')) (PyStr (ascii ''IS-21''))
     (PyList [Some 3]) = Inr roster_two \<and>
   groups roster_two = Some [(1, ascii ''IS-21'')] \<and>
   filter (\<lambda>r. snd r = ascii ''IS-21'') [(1, ascii ''IS-21'')] = [(1, ascii ''IS-21'')] \<and>
   students roster_two =
     Some ([] @ [(1, ascii ''Ivanov I.I.'', 1, [Some 4, Some 5, Some 5]),
                 (2, ascii ''Petrov P.P.'', 1, [Some 3])])"
proof -
  have g: "groups (create_db empty_file) = Some []" "group_st (create_db empty_file) = Some 1"
    by (simp_all add: create_db_def empty_file_def)
  have g1: "groups roster_one = Some [(1, ascii ''IS-21'')]" by (simp add: roster_one_def)
  have p: "plain (ascii ''IS-21'')" by (simp add: plain_def encodable_def ascii_def)
  have i: "int32 1" by (simp add: int32_def)
  have u: "\<not> encodable [56575]" by (simp add: encodable_def)
  note t0 = group_resolver [where db = roster_one and grows = "[(1, ascii ''IS-21'')]"
      and t = "ascii ''IS-21''" and eng = strict]
  note t1 = group_resolver [where db = roster_one and t = "[56575]" and eng = strict]
  note t2 = group_resolver [where db = "create_db empty_file" and grows = "[]"
      and t = "ascii ''IS-21''" and eng = strict and n = 1
      and ?nm1.0 = "PyStr (ascii ''Ivanov I.I.'')"
      and ?gr1.0 = "PyList [Some 4, Some 5, Some 5]" and ?db1.0 = roster_one
      and ?nm2.0 = "PyStr (ascii ''Petrov P.P.'')" and ?gr2.0 = "PyList [Some 3]"
      and ?db2.0 = roster_two]
  from t0 g1 p have 1: "resolve_group strict roster_one (PyStr (ascii ''IS-21'')) = Inr (roster_one, 1)"
    by simp
  from t1 u have 2: "resolve_group strict roster_one (PyStr [56575]) = Inl StorageError"
    by simp
  from t2 g p i
  have 3: "resolve_group strict (create_db empty_file) (PyStr (ascii ''IS-21'')) =
      Inr (group_only_db, 1)"
    by (simp add: group_only_db_def create_db_def empty_file_def)
  from t2 g p add_first [of strict] add_second [of strict]
  have 4: "\<exists>gid grows2 srows s1 n1 a1 s2 n2 a2.
         groups roster_two = Some grows2 \<and>
         filter (\<lambda>r. snd r = ascii ''IS-21'') grows2 = [(gid, ascii ''IS-21'')] \<and>
         students (create_db empty_file) = Some srows \<and>
         students roster_two = Some (srows @ [(s1, n1, gid, a1), (s2, n2, gid, a2)])"
    by simp
  have 5: "groups roster_two = Some [(1, ascii ''IS-21'')]"
    "students roster_two =
     Some ([] @ [(1, ascii ''Ivanov I.I.'', 1, [Some 4, Some 5, Some 5]),
                 (2, ascii ''Petrov P.P.'', 1, [Some 3])])"
    by (simp_all add: roster_two_def)
  from 1 2 3 4 5 g g1 p i add_first [of strict] add_second [of strict]
  show ?thesis by simp
qed

lemma joined_snoc: "joined (srows @ [s]) grows = joined srows grows @ joined [s] grows"
  by (simp add: joined_def)

lemma joined_new_group:
  "\<forall>r\<in>set srows. fst (snd (snd r)) \<noteq> n \<Longrightarrow> joined srows (grows @ [(n, t)]) = joined srows grows"
  by (induction srows) (auto simp: joined_def)

lemma filter_unique_id:
  "distinct (map fst grows) \<Longrightarrow> r \<in> set grows \<Longrightarrow> filter (\<lambda>x. fst x = fst r) grows = [r]"
proof (induction grows)
  case Nil
  then show ?case by simp
next
  case (Cons x xs)
  show ?case
  proof (cases "x = r")
    case True
    from Cons.prems(1) have "fst x \<notin> fst ` set xs" by simp
    then have "\<forall>y\<in>set xs. fst y \<noteq> fst x" by (metis imageI)
    then have "filter (\<lambda>y. fst y = fst x) xs = []" by (simp add: filter_empty_conv)
    with True show ?thesis by simp
  next
    case False
    with Cons.prems have r: "r \<in> set xs" and d: "distinct (map fst xs)" by simp_all
    from Cons.prems(1) have "fst x \<notin> fst ` set xs" by simp
    with r have "fst x \<noteq> fst r" by (metis imageI)
    with Cons.IH [OF d r] show ?thesis by simp
  qed
qed

lemma select_all_mset:
  "students db = Some srows \<Longrightarrow> groups db = Some grows \<Longrightarrow>
   \<exists>rows. select_all eng db = Inr rows \<and> mset rows = image_mset as_dict (mset (joined srows grows))"
  by (simp add: select_all_def)

lemma add_student_appends:
  assumes c: "consistent db"
    and gs: "group_st db = Some gn" "gn \<le> 2147483647"
    and ss: "student_st db = Some sn" "sn \<le> 2147483647"
    and el: "list_all (\<lambda>x. case x of None \<Rightarrow> True | Some i \<Rightarrow> int32 i) g"
    and pl: "plain nm" "plain t"
  shows "\<exists>db' before after.
           add_student eng db (PyStr nm) (PyStr t) (PyList g) = Inr db' \<and>
           select_all eng db = Inr before \<and> select_all eng db' = Inr after \<and>
           mset after = mset before + {#\<lparr>name = Some nm, group = Some t, grade = Some g\<rparr>#}"
proof -
  from c obtain gn0 sn0 grows srows where k:
    "group_st db = Some gn0" "student_st db = Some sn0"
    "groups db = Some grows" "students db = Some srows"
    "1 \<le> gn0" "1 \<le> sn0" "distinct (map fst grows)" "distinct (map fst srows)"
    "\<forall>r\<in>set grows. fst r < gn0" "\<forall>r\<in>set srows. fst r < sn0"
    "\<forall>r\<in>set srows. fst (snd (snd r)) \<in> fst ` set grows"
    by (rule consistentE)
  from k(1,2) gs(1) ss(1) have e: "gn0 = gn" "sn0 = sn" by simp_all
  have gi: "int32 gn" "gn \<notin> fst ` set grows" using k(5,9) e(1) gs(2) by (auto simp: int32_def)
  have si: "int32 sn" "sn \<notin> fst ` set srows" using k(6,10) e(2) ss(2) by (auto simp: int32_def)
  from select_all_mset [OF k(4,3), of eng] obtain before where
    b: "select_all eng db = Inr before"
       "mset before = image_mset as_dict (mset (joined srows grows))"
    by blast
  have fin: ?thesis
    if a: "add_student eng db (PyStr nm) (PyStr t) (PyList g) = Inr db'"
      and s: "students db' = Some (srows @ [(sn, nm, gid, g)])"
      and g': "groups db' = Some grows'"
      and j: "joined (srows @ [(sn, nm, gid, g)]) grows' = joined srows grows @ [(nm, t, g)]"
    for db' gid grows'
  proof -
    from select_all_mset [OF s g', of eng] obtain after where
      f: "select_all eng db' = Inr after"
         "mset after = image_mset as_dict (mset (joined (srows @ [(sn, nm, gid, g)]) grows'))"
      by blast
    from f(2) j b(2)
    have "mset after = mset before + {#\<lparr>name = Some nm, group = Some t, grade = Some g\<rparr>#}"
      by (simp add: as_dict_def)
    with a b(1) f(1) show ?thesis by blast
  qed
  show ?thesis
  proof (cases "permuted (id_order eng) (map fst (filter (\<lambda>r. snd r = t) grows))")
    case Nil
    then have emp: "filter (\<lambda>r. snd r = t) grows = []" by (simp add: permuted_empty_iff)
    let ?db1 = "db\<lparr>group_st := Some (gn + 1), groups := Some (grows @ [(gn, t)])\<rparr>"
    let ?db' = "?db1\<lparr>student_st := Some (sn + 1), students := Some (srows @ [(sn, nm, gn, g)])\<rparr>"
    have r: "resolve_group eng db (PyStr t) = Inr (?db1, gn)"
      using Nil gi gs(1) pl(2) by (simp add: resolve_group_str [OF k(3)])
    have i: "insert_student eng ?db1 (PyStr nm) gn (PyList g) = Inr ?db'"
      using si ss(1) el k(4) pl(1) by (simp add: insert_student_def)
    have a: "add_student eng db (PyStr nm) (PyStr t) (PyList g) = Inr ?db'"
      by (simp add: add_student_def r i)
    have "\<forall>r\<in>set srows. fst (snd (snd r)) \<noteq> gn" using k(11) gi(2) by auto
    then have j: "joined srows (grows @ [(gn, t)]) = joined srows grows"
      by (rule joined_new_group)
    have "filter (\<lambda>x. fst x = gn) grows = []" using gi(2) by (auto simp: filter_empty_conv)
    then have n: "joined [(sn, nm, gn, g)] (grows @ [(gn, t)]) = [(nm, t, g)]"
      by (simp add: joined_def)
    show ?thesis
    proof (rule fin [OF a])
      show "students ?db' = Some (srows @ [(sn, nm, gn, g)])" by simp
      show "groups ?db' = Some (grows @ [(gn, t)])" by simp
      show "joined (srows @ [(sn, nm, gn, g)]) (grows @ [(gn, t)]) =
            joined srows grows @ [(nm, t, g)]"
        by (simp add: joined_snoc j n)
    qed
  next
    case (Cons i rest)
    from permuted_hd [OF Cons] obtain x where x: "x \<in> set grows" "snd x = t" "fst x = i"
      by auto
    let ?db' = "db\<lparr>student_st := Some (sn + 1), students := Some (srows @ [(sn, nm, i, g)])\<rparr>"
    have r: "resolve_group eng db (PyStr t) = Inr (db, i)"
      using Cons pl(2) by (simp add: resolve_group_str [OF k(3)])
    have ii: "i \<in> fst ` set grows" using x(1,3) by auto
    have i: "insert_student eng db (PyStr nm) i (PyList g) = Inr ?db'"
      using si ss(1) el k(3,4) ii pl(1) by (simp add: insert_student_def)
    have a: "add_student eng db (PyStr nm) (PyStr t) (PyList g) = Inr ?db'"
      by (simp add: add_student_def r i)
    have "filter (\<lambda>y. fst y = fst x) grows = [x]" using k(7) x(1) by (rule filter_unique_id)
    then have n: "joined [(sn, nm, i, g)] grows = [(nm, t, g)]"
      by (simp add: joined_def x(2,3))
    show ?thesis
    proof (rule fin [OF a])
      show "students ?db' = Some (srows @ [(sn, nm, i, g)])" by simp
      show "groups ?db' = Some grows" by (simp add: k(3))
      show "joined (srows @ [(sn, nm, i, g)]) grows = joined srows grows @ [(nm, t, g)]"
        by (simp add: joined_snoc n)
    qed
  qed
qed

text \<open>
  Claim C2. In a consistent file whose two sequences have not run past the 32-bit
  identifiers, \<open>add_student\<close> with a name and a group title that are plain strings and
  a list of 32-bit grades succeeds, and afterwards \<open>select_all\<close> holds the record of that
  name, title and grade list once more than before and every other record as often as
  before, whatever order the engine returns the rows in.
\<close>

theorem add_then_select_all:
  assumes "consistent db"
    and "group_st db = Some gn" "gn \<le> 2147483647"
    and "student_st db = Some sn" "sn \<le> 2147483647"
    and "list_all (\<lambda>x. case x of None \<Rightarrow> True | Some i \<Rightarrow> int32 i) g"
    and "plain nm" "plain t"
  shows "\<exists>db' before after.
           add_student eng db (PyStr nm) (PyStr t) (PyList g) = Inr db' \<and>
           select_all eng db = Inr before \<and> select_all eng db' = Inr after \<and>
           (\<forall>r. count_list after r =
                 count_list before r +
                 (if r = \<lparr>name = Some nm, group = Some t, grade = Some g\<rparr> then 1 else 0))"
proof -
  from add_student_appends [OF assms, of eng] obtain db' before after where
    a: "add_student eng db (PyStr nm) (PyStr t) (PyList g) = Inr db'"
       "select_all eng db = Inr before" "select_all eng db' = Inr after"
       "mset after = mset before + {#\<lparr>name = Some nm, group = Some t, grade = Some g\<rparr>#}"
    by blast
  have "count_list after r =
          count_list before r +
          (if r = \<lparr>name = Some nm, group = Some t, grade = Some g\<rparr> then 1 else 0)" for r
  proof -
    have "count_list after r = count (mset after) r" by (simp add: count_mset)
    also have "\<dots> = count (mset before) r +
        count {#\<lparr>name = Some nm, group = Some t, grade = Some g\<rparr>#} r"
      by (simp only: a(4) count_union)
    also have "\<dots> = count_list before r +
          (if r = \<lparr>name = Some nm, group = Some t, grade = Some g\<rparr> then 1 else 0)"
      by (auto simp: count_mset)
    finally show ?thesis .
  qed
  with a show ?thesis by blast
qed

theorem add_then_select_all_witness:
  "consistent roster_one \<and> group_st roster_one = Some 2 \<and> (2::int) \<le> 2147483647 \<and>
   student_st roster_one = Some 2 \<and>
   list_all (\<lambda>x. case x of None \<Rightarrow> True | Some i \<Rightarrow> int32 i) [Some 3] \<and>
   plain (ascii ''Petrov P.P.'') \<and> plain (ascii ''IS-21'') \<and>
   (\<exists>db' before after.
      add_student listing roster_one (PyStr (ascii ''Petrov P.P.'')) (PyStr (ascii ''IS-21''))
        (PyList [Some 3]) = Inr db' \<and>
      select_all listing roster_one = Inr before \<and> select_all listing db' = Inr after \<and>
      (\<forall>r. count_list after r =
            count_list before r +
            (if r = \<lparr>name = Some (ascii ''Petrov P.P.''), group = Some (ascii ''IS-21''),
                      grade = Some [Some 3]\<rparr> then 1 else 0)))"
proof -
  have c: "consistent roster_one"
    by (simp add: consistent_def roster_one_def)
  have g: "group_st roster_one = Some 2" "student_st roster_one = Some 2"
    by (simp_all add: roster_one_def)
  have l: "list_all (\<lambda>x. case x of None \<Rightarrow> True | Some i \<Rightarrow> int32 i) [Some 3]"
    by (simp add: int32_def)
  have p: "plain (ascii ''Petrov P.P.'')" "plain (ascii ''IS-21'')"
    by (simp_all add: plain_def encodable_def ascii_def)
  from add_then_select_all [OF c g(1) _ g(2) _ l p, of listing]
    c g l p show ?thesis by simp
qed

lemma titled_rows_of_student:
  "map as_dict (filter (\<lambda>row. fst (snd row) = t)
      (map (\<lambda>r. (nm, snd r, g)) (filter (\<lambda>r. fst r = gid) grows))) =
   [\<lparr>name = Some nm, group = Some t, grade = Some g\<rparr>. (gid', t') \<leftarrow> grows, gid' = gid, t' = t]"
  by (induction grows) (auto simp: as_dict_def)

lemma titled_rows:
  "map as_dict (filter (\<lambda>row. fst (snd row) = t) (joined srows grows)) =
   [\<lparr>name = Some nm, group = Some t, grade = Some g\<rparr>.
      (sid, nm, gid, g) \<leftarrow> srows, (gid', t') \<leftarrow> grows, gid' = gid, t' = t]"
proof (induction srows)
  case Nil
  then show ?case by (simp add: joined_def)
next
  case (Cons s srows)
  obtain sid nm gid g where s: "s = (sid, nm, gid, g)" by (cases s)
  have "joined (s # srows) grows =
        map (\<lambda>r. (nm, snd r, g)) (filter (\<lambda>r. fst r = gid) grows) @ joined srows grows"
    by (simp add: joined_def s)
  with Cons.IH show ?case
    by (simp add: s titled_rows_of_student)
qed

text \<open>
  Claim C3. For a plain string parameter and a file with its tables,
  \<open>select_by_grade\<close> returns, in the engine's order, exactly the records made of the
  student rows and the group rows they reference whose title is equal to the parameter:
  every returned record has that group, and every stored student whose group row has
  that title is returned. A parameter that cannot be encoded makes the query raise.
\<close>

theorem select_by_grade_filters:
  "(students db = Some srows \<and> groups db = Some grows \<and> plain t \<longrightarrow>
      (\<exists>rows.
         select_by_grade eng db (PyStr t) = Inr rows \<and>
         mset rows =
           mset [\<lparr>name = Some nm, group = Some t, grade = Some g\<rparr>.
                   (sid, nm, gid, g) \<leftarrow> srows, (gid', t') \<leftarrow> grows, gid' = gid, t' = t] \<and>
         (\<forall>r\<in>set rows. group r = Some t) \<and>
         (\<forall>sid nm gid g.
            (sid, nm, gid, g) \<in> set srows \<and> (gid, t) \<in> set grows \<longrightarrow>
            \<lparr>name = Some nm, group = Some t, grade = Some g\<rparr> \<in> set rows))) \<and>
   (\<not> encodable t \<longrightarrow> select_by_grade eng db (PyStr t) = Inl StorageError)"
proof (intro conjI impI)
  assume h: "students db = Some srows \<and> groups db = Some grows \<and> plain t"
  let ?sel = "filter (\<lambda>row. fst (snd row) = t) (joined srows grows)"
  let ?rows = "map as_dict (permuted (row_order eng SelectByGroup) ?sel)"
  let ?spec = "[\<lparr>name = Some nm, group = Some t, grade = Some g\<rparr>.
                   (sid, nm, gid, g) \<leftarrow> srows, (gid', t') \<leftarrow> grows, gid' = gid, t' = t]"
  from h have r: "select_by_grade eng db (PyStr t) = Inr ?rows"
    by (simp add: select_by_grade_def where_rows_Some)
  have "mset ?rows = image_mset as_dict (mset ?sel)" by simp
  also have "\<dots> = mset (map as_dict ?sel)" by simp
  also have "\<dots> = mset ?spec" by (simp only: titled_rows)
  finally have m: "mset ?rows = mset ?spec" .
  then have s: "set ?rows = set ?spec" by (rule mset_eq_setD)
  have a: "\<forall>r\<in>set ?rows. group r = Some t" unfolding s by auto
  have b: "\<forall>sid nm gid g.
            (sid, nm, gid, g) \<in> set srows \<and> (gid, t) \<in> set grows \<longrightarrow>
            \<lparr>name = Some nm, group = Some t, grade = Some g\<rparr> \<in> set ?rows"
    unfolding s by force
  from r m a b show "\<exists>rows.
         select_by_grade eng db (PyStr t) = Inr rows \<and>
         mset rows = mset ?spec \<and>
         (\<forall>r\<in>set rows. group r = Some t) \<and>
         (\<forall>sid nm gid g.
            (sid, nm, gid, g) \<in> set srows \<and> (gid, t) \<in> set grows \<longrightarrow>
            \<lparr>name = Some nm, group = Some t, grade = Some g\<rparr> \<in> set rows)"
    by blast
next
  assume "\<not> encodable t"
  then show "select_by_grade eng db (PyStr t) = Inl StorageError"
    by (simp add: select_by_grade_def plain_def split: option.splits)
qed


theorem select_by_grade_filters_witness:
  "students roster_mixed =
     Some [(1, ascii ''Ivanov I.I.'', 1, [Some 4, Some 5, Some 5]),
           (2, ascii ''Petrov P.P.'', 2, [Some 3]),
           (3, ascii ''Sidorov S.S.'', 1, [Some 5])] \<and>
   groups roster_mixed = Some [(1, ascii ''IS-21''), (2, ascii ''IS-22'')] \<and>
   plain (ascii ''IS-21'') \<and>
   (\<exists>rows.
      select_by_grade listing roster_mixed (PyStr (ascii ''IS-21'')) = Inr rows \<and>
      mset rows =
        mset [\<lparr>name = Some (ascii ''Ivanov I.I.''), group = Some (ascii ''IS-21''),
                grade = Some [Some 4, Some 5, Some 5]\<rparr>,
              \<lparr>name = Some (ascii ''Sidorov S.S.''), group = Some (ascii ''IS-21''),
                grade = Some [Some 5]\<rparr>]) \<and>
   select_by_grade listing roster_mixed (PyStr [56575]) = Inl StorageError"
proof -
  have s: "students roster_mixed =
     Some [(1, ascii ''Ivanov I.I.'', 1, [Some 4, Some 5, Some 5]),
           (2, ascii ''Petrov P.P.'', 2, [Some 3]),
           (3, ascii ''Sidorov S.S.'', 1, [Some 5])]"
    and g: "groups roster_mixed = Some [(1, ascii ''IS-21''), (2, ascii ''IS-22'')]"
    by (simp_all add: roster_mixed_def)
  have p: "plain (ascii ''IS-21'')" by (simp add: plain_def encodable_def ascii_def)
  have u: "\<not> encodable [56575]" by (simp add: encodable_def)
  note t = select_by_grade_filters [where db = roster_mixed and eng = listing
      and t = "ascii ''IS-21''"
      and srows = "[(1, ascii ''Ivanov I.I.'', 1, [Some 4, Some 5, Some 5]),
           (2, ascii ''Petrov P.P.'', 2, [Some 3]),
           (3, ascii ''Sidorov S.S.'', 1, [Some 5])]"
      and grows = "[(1, ascii ''IS-21''), (2, ascii ''IS-22'')]"]
  from t s g p obtain rows where
    r: "select_by_grade listing roster_mixed (PyStr (ascii ''IS-21'')) = Inr rows"
       "mset rows =
           mset [\<lparr>name = Some nm, group = Some (ascii ''IS-21''), grade = Some g\<rparr>.
                   (sid, nm, gid, g) \<leftarrow> [(1, ascii ''Ivanov I.I.'', 1, [Some 4, Some 5, Some 5]),
                                       (2, ascii ''Petrov P.P.'', 2, [Some 3]),
                                       (3, ascii ''Sidorov S.S.'', 1, [Some 5]) :: student_row],
                   (gid', t') \<leftarrow> [(1, ascii ''IS-21''), (2, ascii ''IS-22'') :: group_row],
                   gid' = gid, t' = ascii ''IS-21'']"
    by blast
  from r(2) have "mset rows =
        mset [\<lparr>name = Some (ascii ''Ivanov I.I.''), group = Some (ascii ''IS-21''),
                grade = Some [Some 4, Some 5, Some 5]\<rparr>,
              \<lparr>name = Some (ascii ''Sidorov S.S.''), group = Some (ascii ''IS-21''),
                grade = Some [Some 5]\<rparr>]"
    by (simp add: ascii_def)
  with r(1) have 1: "\<exists>rows.
      select_by_grade listing roster_mixed (PyStr (ascii ''IS-21'')) = Inr rows \<and>
      mset rows =
        mset [\<lparr>name = Some (ascii ''Ivanov I.I.''), group = Some (ascii ''IS-21''),
                grade = Some [Some 4, Some 5, Some 5]\<rparr>,
              \<lparr>name = Some (ascii ''Sidorov S.S.''), group = Some (ascii ''IS-21''),
                grade = Some [Some 5]\<rparr>]"
    by blast
  from select_by_grade_filters [where t = "[56575]" and eng = listing and db = roster_mixed] u
  have 2: "select_by_grade listing roster_mixed (PyStr [56575]) = Inl StorageError" by simp
  from s g p 1 2 show ?thesis by simp
qed

section \<open>Properties of the command line\<close>

lemma ascii_simps [simp]: "ascii [] = []" "ascii (c # cs) = of_char c # ascii cs"
  by (simp_all add: ascii_def)

text \<open>
  Claim C4. With no sub-command the parser returns a namespace without the attribute
  \<open>db\<close>, so \<open>main\<close> stops at \<open>args.db\<close> with an \<open>AttributeError\<close>: \<open>create_db\<close> is not
  reached and the file is as it was.
\<close>

theorem no_subcommand_crashes:
  "main eng default_db [] db = Crashed AttributeError (Some db) []"
  by (simp add: main_def parse_args_def getattr_def)

lemma parse_add_no_group:
  "parse_args d add_no_group =
     Inr [''command'' \<mapsto> PyStr (ascii ''add''), ''db'' \<mapsto> PyStr d, ''name'' \<mapsto> PyStr (ascii ''A''),
          ''group'' \<mapsto> PyNone, ''grade'' \<mapsto> PyStr (ascii ''5'')]"
  by (simp add: add_no_group_def parse_args_def subparser_def is_value_def is_help_def
      add_options_def file_options_def get_value_def is_digit_def fun_eq_iff)

text \<open>
  Claim C6. \<open>--group\<close> is not declared \<open>required\<close>: the command line
  \<open>add --name A --grade 5\<close> is accepted with \<open>group\<close> set to \<open>None\<close>, \<open>create_db\<close> runs,
  and \<open>add_student\<close> fails in the storage layer, at the insert of a group row whose title
  is \<open>NULL\<close>.
\<close>

theorem add_without_group_accepted:
  "main eng d add_no_group db = Crashed StorageError None []"
  by (simp add: main_def parse_add_no_group getattr_def add_arguments_def add_student_def
      resolve_group_def create_db_def where_rows_Some split: option.splits)


lemma consume_invariant:
  assumes "consume opts st toks = Inr st'"
    and "I st"
    and "\<And>ns seen extras. I (ns, seen, extras) \<Longrightarrow> I (ns, seen, True)"
    and "\<And>ns seen extras tok dest v x.
           I (ns, seen, extras) \<Longrightarrow> tok \<in> set toks \<Longrightarrow> map_of opts tok = Some dest \<Longrightarrow>
           v \<in> set toks \<Longrightarrow> get_value dest v = Inr x \<Longrightarrow>
           I (ns(dest \<mapsto> x), dest # seen, extras)"
  shows "I st'"
  using assms
proof (induction opts st toks rule: consume.induct)
  case (1 opts st)
  then show ?case by simp
next
  case (2 opts ns seen extras tok rest)
  have step: "I (ns0(d \<mapsto> x), d # seen0, extras0)"
    if "I (ns0, seen0, extras0)" "t \<in> set (tok # rest)" "map_of opts t = Some d"
       "w \<in> set (tok # rest)" "get_value d w = Inr x"
    for ns0 seen0 extras0 t d w x
    using that by (rule "2.prems"(4))
  show ?case
  proof (cases "is_value tok")
    case True
    with "2.prems"(1) have c: "consume opts (ns, seen, True) rest = Inr st'" by simp
    have i: "I (ns, seen, True)" using "2.prems"(2) by (rule "2.prems"(3))
    show ?thesis
    proof (rule "2.IH"(1) [OF True c i])
      fix ns0 seen0 extras0 assume "I (ns0, seen0, extras0)"
      then show "I (ns0, seen0, True)" by (rule "2.prems"(3))
    next
      fix ns0 seen0 extras0 t d w x
      assume a: "I (ns0, seen0, extras0)" "t \<in> set rest" "map_of opts t = Some d"
        "w \<in> set rest" "get_value d w = Inr x"
      from a(2,4) have "t \<in> set (tok # rest)" "w \<in> set (tok # rest)" by simp_all
      with a show "I (ns0(d \<mapsto> x), d # seen0, extras0)" by (blast intro: step)
    qed
  next
    case False
    with "2.prems"(1) obtain dest v rest' x where
      h: "\<not> is_help tok" "map_of opts tok = Some dest" "rest = v # rest'" "is_value v"
         "get_value dest v = Inr x"
         "consume opts (ns(dest \<mapsto> x), dest # seen, extras) rest' = Inr st'"
      by (auto split: if_splits option.splits list.splits sum.splits)
    have "tok \<in> set (tok # rest)" "v \<in> set (tok # rest)" using h(3) by simp_all
    with "2.prems"(2) h(2,5) have i: "I (ns(dest \<mapsto> x), dest # seen, extras)"
      by (blast intro: step)
    show ?thesis
    proof (rule "2.IH"(2) [OF False h(1,2,3,4,5) h(6) i])
      fix ns0 seen0 extras0 assume "I (ns0, seen0, extras0)"
      then show "I (ns0, seen0, True)" by (rule "2.prems"(3))
    next
      fix ns0 seen0 extras0 t d w x
      assume a: "I (ns0, seen0, extras0)" "t \<in> set rest'" "map_of opts t = Some d"
        "w \<in> set rest'" "get_value d w = Inr x"
      from a(2,4) h(3) have "t \<in> set (tok # rest)" "w \<in> set (tok # rest)" by simp_all
      with a show "I (ns0(d \<mapsto> x), d # seen0, extras0)" by (blast intro: step)
    qed
  qed
qed

lemma consume_untouched:
  assumes "consume opts (ns, seen, extras) toks = Inr (ns', seen', extras')"
    and "\<forall>tok\<in>set toks. map_of opts tok \<noteq> Some dest"
  shows "ns' dest = ns dest"
proof -
  have "(\<lambda>st. fst st dest = ns dest) (ns', seen', extras')"
  proof (rule consume_invariant [OF assms(1)])
    show "fst (ns, seen, extras) dest = ns dest" by simp
  next
    fix ns0 :: namespace and seen0 :: "string list" and extras0 :: bool
    assume "fst (ns0, seen0, extras0) dest = ns dest"
    then show "fst (ns0, seen0, True) dest = ns dest" by simp
  next
    fix ns0 :: namespace and seen0 :: "string list" and extras0 :: bool and tok d v x
    assume a: "fst (ns0, seen0, extras0) dest = ns dest" "tok \<in> set toks"
      "map_of opts tok = Some d"
    from a(2,3) assms(2) have "d \<noteq> dest" by auto
    with a(1) show "fst (ns0(d \<mapsto> x), d # seen0, extras0) dest = ns dest" by simp
  qed
  then show ?thesis by simp
qed


lemma map_of_add_options:
  "map_of add_options tok = Some dest \<Longrightarrow> dest \<in> {''db'', ''name'', ''group'', ''grade''}"
  by (simp add: add_options_def file_options_def split: if_splits)

lemma get_value_group:
  "get_value ''group'' v = Inr x \<Longrightarrow> \<exists>k. py_int v = Some k \<and> x = PyInt k"
  by (simp add: get_value_def split: if_splits option.splits)

lemma get_value_other: "dest \<noteq> ''group'' \<Longrightarrow> get_value dest v = Inr x \<Longrightarrow> x = PyStr v"
  by (simp add: get_value_def)

lemma subparser_command:
  assumes "subparser opts required ns toks = Inr ns'"
    and "\<forall>tok. map_of opts tok \<noteq> Some ''command''"
  shows "ns' ''command'' = ns ''command''"
proof -
  from assms(1) obtain seen extras where
    "consume opts (ns, [], False) toks = Inr (ns', seen, extras)"
    by (auto simp: subparser_def split: sum.splits if_splits)
  then show ?thesis using assms(2) by (auto intro: consume_untouched)
qed

lemma no_command_option:
  "map_of file_options tok \<noteq> Some ''command''"
  "map_of select_options tok \<noteq> Some ''command''"
  "map_of add_options tok \<noteq> Some ''command''"
  by (simp_all add: add_options_def select_options_def file_options_def)

lemma add_command_line:
  assumes "parse_args d argv = Inr args" and "args ''command'' = Some (PyStr (ascii ''add''))"
  obtains rest where "argv = ascii ''add'' # rest"
    "subparser add_options [''name'', ''grade'']
       [''command'' \<mapsto> PyStr (ascii ''add''), ''db'' \<mapsto> PyStr d, ''name'' \<mapsto> PyNone,
        ''group'' \<mapsto> PyNone, ''grade'' \<mapsto> PyNone] rest = Inr args"
proof -
  from assms obtain tok rest where a: "argv = tok # rest" "is_value tok"
    by (cases argv) (auto simp: parse_args_def split: if_splits)
  show thesis
  proof (cases "tok = ascii ''add''")
    case True
    with assms(1) a that show thesis by (simp add: parse_args_def)
  next
    case False
    show thesis
    proof (cases "tok = ascii ''display''")
      case True
      with assms(1) a have "subparser file_options []
          [''command'' \<mapsto> PyStr tok, ''db'' \<mapsto> PyStr d] rest = Inr args"
        by (simp add: parse_args_def)
      then have "args ''command'' = Some (PyStr tok)"
        using subparser_command [of file_options "[]" _ rest args] no_command_option(1)
        by simp
      with assms(2) False show thesis by simp
    next
      case d: False
      with assms(1) a False have s: "tok = ascii ''select''"
        "subparser select_options [''select'']
          [''command'' \<mapsto> PyStr tok, ''db'' \<mapsto> PyStr d, ''select'' \<mapsto> PyNone] rest = Inr args"
        by (simp_all add: parse_args_def split: if_splits)
      from s(2) have "args ''command'' = Some (PyStr tok)"
        using subparser_command [of select_options "[''select'']" _ rest args] no_command_option(2)
        by simp
      with assms(2) False show thesis by simp
    qed
  qed
qed

lemma add_namespace:
  assumes "parse_args d argv = Inr args" and "args ''command'' = Some (PyStr (ascii ''add''))"
  shows "\<exists>nm gr. nm \<in> set argv \<and> gr \<in> set argv \<and>
           args ''name'' = Some (PyStr nm) \<and> args ''grade'' = Some (PyStr gr) \<and>
           args ''db'' \<noteq> None \<and>
           (args ''group'' = Some PyNone \<or>
            (\<exists>v k. v \<in> set argv \<and> py_int v = Some k \<and> args ''group'' = Some (PyInt k))) \<and>
           (ascii ''-g'' \<notin> set argv \<and> ascii ''--group'' \<notin> set argv \<longrightarrow>
              args ''group'' = Some PyNone)"
proof -
  let ?ns0 = "[''command'' \<mapsto> PyStr (ascii ''add''), ''db'' \<mapsto> PyStr d, ''name'' \<mapsto> PyNone,
        ''group'' \<mapsto> PyNone, ''grade'' \<mapsto> PyNone]"
  from assms obtain rest where r: "argv = ascii ''add'' # rest"
    "subparser add_options [''name'', ''grade''] ?ns0 rest = Inr args"
    by (rule add_command_line)
  from r(2) obtain seen extras where
    c: "consume add_options (?ns0, [], False) rest = Inr (args, seen, extras)"
    and s: "''name'' \<in> set seen" "''grade'' \<in> set seen"
    by (auto simp: subparser_def split: sum.splits if_splits)
  let ?I = "\<lambda>st. case st of (ns, seen, extras) \<Rightarrow>
      ns ''db'' \<noteq> None \<and>
      (''name'' \<in> set seen \<longrightarrow> (\<exists>nm\<in>set rest. ns ''name'' = Some (PyStr nm))) \<and>
      (''grade'' \<in> set seen \<longrightarrow> (\<exists>gr\<in>set rest. ns ''grade'' = Some (PyStr gr))) \<and>
      (ns ''group'' = Some PyNone \<or>
       (\<exists>v k. v \<in> set rest \<and> py_int v = Some k \<and> ns ''group'' = Some (PyInt k)))"
  have "?I (args, seen, extras)"
  proof (rule consume_invariant [OF c])
    show "?I (?ns0, [], False)" by simp
  next
    fix ns0 :: namespace and seen0 :: "string list" and extras0 :: bool
    assume "?I (ns0, seen0, extras0)"
    then show "?I (ns0, seen0, True)" by simp
  next
    fix ns0 :: namespace and seen0 :: "string list" and extras0 :: bool and tok dest v x
    assume a: "?I (ns0, seen0, extras0)" "map_of add_options tok = Some dest"
      "v \<in> set rest" "get_value dest v = Inr x"
    from a(2) have "dest \<in> {''db'', ''name'', ''group'', ''grade''}" by (rule map_of_add_options)
    then consider "dest = ''db''" | "dest = ''name''" | "dest = ''group''" | "dest = ''grade''"
      by blast
    then show "?I (ns0(dest \<mapsto> x), dest # seen0, extras0)"
    proof cases
      case 1
      with a(1) show ?thesis by simp
    next
      case 2
      with a(4) have "x = PyStr v" using get_value_other [of dest v x] by simp
      with 2 a(1,3) show ?thesis by auto
    next
      case 3
      with a(4) obtain k where "py_int v = Some k" "x = PyInt k"
        using get_value_group by blast
      with 3 a(1,3) show ?thesis by auto
    next
      case 4
      with a(4) have "x = PyStr v" using get_value_other [of dest v x] by simp
      with 4 a(1,3) show ?thesis by auto
    qed
  qed
  with s r(1) have main: "\<exists>nm gr. nm \<in> set argv \<and> gr \<in> set argv \<and>
           args ''name'' = Some (PyStr nm) \<and> args ''grade'' = Some (PyStr gr) \<and>
           args ''db'' \<noteq> None \<and>
           (args ''group'' = Some PyNone \<or>
            (\<exists>v k. v \<in> set argv \<and> py_int v = Some k \<and> args ''group'' = Some (PyInt k)))"
    by auto
  have "args ''group'' = Some PyNone"
    if n: "ascii ''-g'' \<notin> set argv \<and> ascii ''--group'' \<notin> set argv"
  proof -
    have "\<forall>tok\<in>set rest. map_of add_options tok \<noteq> Some ''group''"
      using n r(1) by (auto simp: add_options_def file_options_def split: if_splits)
    with c have "args ''group'' = ?ns0 ''group''" by (rule consume_untouched)
    then show ?thesis by simp
  qed
  with main show ?thesis by blast
qed


lemma main_add:
  assumes "parse_args d argv = Inr args" and "args ''command'' = Some (PyStr (ascii ''add''))"
    and "add_arguments args = Inr (nm, g, gr)"
  shows "main eng d argv db =
           (case add_student eng (create_db db) nm g gr of
              Inl e \<Rightarrow> Crashed e None []
            | Inr db2 \<Rightarrow> Finished db2 [])"
proof -
  from add_namespace [OF assms(1,2)] obtain p where "args ''db'' = Some p" by auto
  with assms show ?thesis by (simp add: main_def getattr_def)
qed


lemma consume_option_step:
  assumes "consume opts st (pre @ opt # rest) = Inr st'"
    and "map_of opts opt = Some dest" and "\<not> is_value opt" and "\<not> is_help opt"
  shows "\<exists>v post ns seen extras x.
           rest = v # post \<and> get_value dest v = Inr x \<and>
           consume opts (ns(dest \<mapsto> x), dest # seen, extras) post = Inr st'"
  using assms
proof (induction opts st "pre @ opt # rest" arbitrary: pre rule: consume.induct)
  case (1 opts st)
  then show ?case by simp
next
  case (2 opts ns seen extras tok toks)
  show ?case
  proof (cases pre)
    case Nil
    with "2.hyps"(3) have e: "tok = opt" "toks = rest" by simp_all
    from "2.prems"(1) "2.hyps"(3) [symmetric] e "2.prems"(2,3,4)
    show ?thesis
      by (auto split: list.splits if_splits sum.splits)
  next
    case (Cons p pre')
    with "2.hyps"(3) have e: "tok = p" "toks = pre' @ opt # rest" by simp_all
    show ?thesis
    proof (cases "is_value tok")
      case True
      from "2.prems"(1) "2.hyps"(3) [symmetric] True
      have c: "consume opts (ns, seen, True) (pre' @ opt # rest) = Inr st'"
        by (simp add: e(2))
      from "2.hyps"(1) [OF True e(2) c "2.prems"(2,3,4)] show ?thesis .
    next
      case False
      from "2.prems"(1) "2.hyps"(3) [symmetric] False obtain d w toks' y where
        h: "\<not> is_help tok" "map_of opts tok = Some d" "toks = w # toks'" "is_value w"
           "get_value d w = Inr y"
           "consume opts (ns(d \<mapsto> y), d # seen, extras) toks' = Inr st'"
        by (auto split: if_splits option.splits list.splits sum.splits)
      from h(3,4) e(2) "2.prems"(3) obtain pre'' where
        p: "pre' = w # pre''" "toks' = pre'' @ opt # rest"
        by (cases pre') auto
      from h(3) p(2) have t: "toks = w # pre'' @ opt # rest" by simp
      from h(6) p(2)
      have c: "consume opts (ns(d \<mapsto> y), d # seen, extras) (pre'' @ opt # rest) = Inr st'"
        by simp
      from "2.hyps"(2) [OF False h(1,2) t h(4,5) c "2.prems"(2,3,4)]
      show ?thesis .
    qed
  qed
qed

lemma grade_option:
  "map_of add_options tok = Some ''grade'' \<longleftrightarrow> tok = ascii ''-gr'' \<or> tok = ascii ''--grade''"
  by (auto simp: add_options_def file_options_def split: if_splits)

lemma grade_option_token:
  "tok = ascii ''-gr'' \<or> tok = ascii ''--grade'' \<Longrightarrow> \<not> is_value tok \<and> \<not> is_help tok"
  by (auto simp: is_value_def is_help_def is_digit_def)

lemma add_student_row:
  assumes "add_student eng db nm g gr = Inr db'"
  shows "\<exists>srows sid s gid a.
           as_grade eng gr = Some a \<and> students db = Some srows \<and>
           students db' = Some (srows @ [(sid, s, gid, a)])"
proof -
  from assms obtain db1 gid where
    r: "resolve_group eng db g = Inr (db1, gid)" and
    i: "insert_student eng db1 nm gid gr = Inr db'"
    by (auto simp: add_student_def split: sum.splits)
  from r have s: "students db1 = students db"
    by (cases rule: resolve_group_cases) simp_all
  from i obtain srows grows n a t where
    "students db1 = Some srows" "as_grade eng gr = Some a"
    "db' = db1\<lparr>student_st := Some (n + 1), students := Some (srows @ [(n, t, gid, a)])\<rparr>"
    by (rule insert_student_cases)
  with s show ?thesis by auto
qed

lemma add_grade_token:
  assumes "parse_args d argv = Inr args" and "args ''command'' = Some (PyStr (ascii ''add''))"
  shows "\<exists>pre opt v post.
           argv = ascii ''add'' # pre @ opt # v # post \<and>
           (opt = ascii ''-gr'' \<or> opt = ascii ''--grade'') \<and>
           ascii ''-gr'' \<notin> set post \<and> ascii ''--grade'' \<notin> set post \<and>
           args ''grade'' = Some (PyStr v)"
proof -
  let ?ns0 = "[''command'' \<mapsto> PyStr (ascii ''add''), ''db'' \<mapsto> PyStr d, ''name'' \<mapsto> PyNone,
        ''group'' \<mapsto> PyNone, ''grade'' \<mapsto> PyNone]"
  from assms obtain rest where r: "argv = ascii ''add'' # rest"
    "subparser add_options [''name'', ''grade''] ?ns0 rest = Inr args"
    by (rule add_command_line)
  from r(2) obtain seen extras where
    c: "consume add_options (?ns0, [], False) rest = Inr (args, seen, extras)"
    and s: "''grade'' \<in> set seen"
    by (auto simp: subparser_def split: sum.splits if_splits)
  let ?I = "\<lambda>st. case st of (ns, seen, extras) \<Rightarrow>
      (''grade'' \<in> set seen \<longrightarrow> (\<exists>tok\<in>set rest. map_of add_options tok = Some ''grade''))"
  have "?I (args, seen, extras)"
  proof (rule consume_invariant [OF c])
    show "?I (?ns0, [], False)" by simp
  next
    fix ns0 :: namespace and seen0 :: "string list" and extras0 :: bool
    assume "?I (ns0, seen0, extras0)"
    then show "?I (ns0, seen0, True)" by simp
  next
    fix ns0 :: namespace and seen0 :: "string list" and extras0 :: bool and tok dest v x
    assume a: "?I (ns0, seen0, extras0)" "tok \<in> set rest" "map_of add_options tok = Some dest"
    then show "?I (ns0(dest \<mapsto> x), dest # seen0, extras0)" by auto
  qed
  with s have "\<exists>tok\<in>set rest. map_of add_options tok = Some ''grade''" by simp
  then obtain pre opt zs where
    z: "rest = pre @ opt # zs" "map_of add_options opt = Some ''grade''"
       "\<forall>tok\<in>set zs. map_of add_options tok \<noteq> Some ''grade''"
    using split_list_last_prop [of rest "\<lambda>tok. map_of add_options tok = Some ''grade''"]
    by blast
  from z(2) have o: "opt = ascii ''-gr'' \<or> opt = ascii ''--grade''" by (simp add: grade_option)
  then have k: "\<not> is_value opt" "\<not> is_help opt" using grade_option_token by blast+
  from consume_option_step [OF c [unfolded z(1)] z(2) k] obtain v post ns1 seen1 extras1 x where
    st: "zs = v # post" "get_value ''grade'' v = Inr x"
        "consume add_options (ns1(''grade'' \<mapsto> x), ''grade'' # seen1, extras1) post =
         Inr (args, seen, extras)"
    by blast
  from st(2) have x: "x = PyStr v" using get_value_other [of "''grade''" v x] by simp
  from z(3) st(1) have n: "\<forall>tok\<in>set post. map_of add_options tok \<noteq> Some ''grade''" by simp
  from consume_untouched [OF st(3) n] x have g: "args ''grade'' = Some (PyStr v)" by simp
  from n have "ascii ''-gr'' \<notin> set post \<and> ascii ''--grade'' \<notin> set post"
    using grade_option by blast
  with r(1) z(1) st(1) o g show ?thesis by blast
qed

text \<open>
  Claim C8, amended. When \<open>add\<close> runs, the grade that \<open>main\<close> hands to \<open>add_student\<close> is
  a string and not a list: it is the token that follows the last \<open>-gr\<close> or \<open>--grade\<close> on
  the command line, unchanged. When the run succeeds, the new student row holds the
  integer array that the storage engine made of that string.
\<close>

theorem grade_is_command_line_string:
  "parse_args d argv = Inr args \<and> args ''command'' = Some (PyStr (ascii ''add'')) \<longrightarrow>
     (\<exists>pre opt v post nm g.
        argv = ascii ''add'' # pre @ opt # v # post \<and>
        (opt = ascii ''-gr'' \<or> opt = ascii ''--grade'') \<and>
        ascii ''-gr'' \<notin> set post \<and> ascii ''--grade'' \<notin> set post \<and>
        add_arguments args = Inr (nm, g, PyStr v) \<and>
        main eng d argv db =
          (case add_student eng (create_db db) nm g (PyStr v) of
             Inl e \<Rightarrow> Crashed e None []
           | Inr db2 \<Rightarrow> Finished db2 []) \<and>
        (\<forall>db2 out. main eng d argv db = Finished db2 out \<longrightarrow>
           (\<exists>srows sid s gid a.
              to_int_array eng (PyStr v) = Some a \<and>
              students (create_db db) = Some srows \<and>
              students db2 = Some (srows @ [(sid, s, gid, a)]))))"
proof
  assume a: "parse_args d argv = Inr args \<and> args ''command'' = Some (PyStr (ascii ''add''))"
  then have p: "parse_args d argv = Inr args" "args ''command'' = Some (PyStr (ascii ''add''))"
    by simp_all
  from add_grade_token [OF p] obtain pre opt v post where
    t: "argv = ascii ''add'' # pre @ opt # v # post"
       "opt = ascii ''-gr'' \<or> opt = ascii ''--grade''"
       "ascii ''-gr'' \<notin> set post \<and> ascii ''--grade'' \<notin> set post"
       "args ''grade'' = Some (PyStr v)"
    by blast
  from add_namespace [OF p] obtain nm where
    m: "args ''name'' = Some (PyStr nm)"
       "args ''group'' = Some PyNone \<or>
        (\<exists>w k. w \<in> set argv \<and> py_int w = Some k \<and> args ''group'' = Some (PyInt k))"
    by blast
  from m(2) obtain g where g: "args ''group'' = Some g" by blast
  from m(1) g t(4) have r: "add_arguments args = Inr (PyStr nm, g, PyStr v)"
    by (simp add: add_arguments_def getattr_def)
  note run = main_add [OF p r, of eng db]
  have "\<exists>srows sid s gid a.
              to_int_array eng (PyStr v) = Some a \<and>
              students (create_db db) = Some srows \<and>
              students db2 = Some (srows @ [(sid, s, gid, a)])"
    if f: "main eng d argv db = Finished db2 out" for db2 out
  proof -
    from f run have "add_student eng (create_db db) (PyStr nm) g (PyStr v) = Inr db2"
      by (simp split: sum.splits)
    from add_student_row [OF this] obtain srows sid s gid a where
      w: "as_grade eng (PyStr v) = Some a" "students (create_db db) = Some srows"
         "students db2 = Some (srows @ [(sid, s, gid, a)])"
      by blast
    from w(1) have "to_int_array eng (PyStr v) = Some a" by (simp split: if_splits)
    with w(2,3) show ?thesis by blast
  qed
  with t(1,2,3) r run
  show "\<exists>pre opt v post nm g.
        argv = ascii ''add'' # pre @ opt # v # post \<and>
        (opt = ascii ''-gr'' \<or> opt = ascii ''--grade'') \<and>
        ascii ''-gr'' \<notin> set post \<and> ascii ''--grade'' \<notin> set post \<and>
        add_arguments args = Inr (nm, g, PyStr v) \<and>
        main eng d argv db =
          (case add_student eng (create_db db) nm g (PyStr v) of
             Inl e \<Rightarrow> Crashed e None []
           | Inr db2 \<Rightarrow> Finished db2 []) \<and>
        (\<forall>db2 out. main eng d argv db = Finished db2 out \<longrightarrow>
           (\<exists>srows sid s gid a.
              to_int_array eng (PyStr v) = Some a \<and>
              students (create_db db) = Some srows \<and>
              students db2 = Some (srows @ [(sid, s, gid, a)])))"
    by blast
qed





lemma parse_add_full: "parse_args students_db add_full = Inr full_args"
  by (simp add: add_full_def full_args_def parse_args_def subparser_def is_value_def is_help_def
      add_options_def file_options_def get_value_def is_digit_def in_fragment_def
      py_int_def strip_def is_space_def int_unsigned_def fun_eq_iff)

lemma parse_add_listed: "parse_args students_db add_listed = Inr listed_args"
  by (simp add: add_listed_def listed_args_def parse_args_def subparser_def is_value_def
      is_help_def add_options_def file_options_def get_value_def is_digit_def in_fragment_def
      py_int_def strip_def is_space_def int_unsigned_def fun_eq_iff)

lemma full_arguments:
  "add_arguments full_args = Inr (PyStr (ascii ''A''), PyInt 1, PyStr (ascii ''5''))"
  by (simp add: add_arguments_def getattr_def full_args_def)

lemma listed_arguments:
  "add_arguments listed_args = Inr (PyStr (ascii ''A''), PyInt 1, PyStr (ascii ''[4, 5, 5]''))"
  by (simp add: add_arguments_def getattr_def listed_args_def)

lemma add_listed_run:
  "add_student listing (create_db empty_file) (PyStr (ascii ''A'')) (PyInt 1)
     (PyStr (ascii ''[4, 5, 5]'')) = Inr listed_db"
  by (simp add: add_student_def resolve_group_def insert_student_def create_db_def
      empty_file_def listing_def listed_db_def int32_def str_int_def digits.simps
      plain_def encodable_def)



text \<open>
  Claim C8 as stated fails: for \<open>add --name A --group 1 --grade 5\<close> the grade handed to
  \<open>add_student\<close> is the string \<open>5\<close>, not a list.
\<close>

theorem grade_handed_is_a_string:
  "map_sum id add_arguments (parse_args students_db add_full) =
     Inr (Inr (PyStr (ascii ''A''), PyInt 1, PyStr (ascii ''5''))) \<and>
   \<not> is_list (PyStr (ascii ''5''))"
  by (simp add: parse_add_full full_arguments is_list_def)

theorem grade_is_command_line_string_witness:
  "parse_args students_db add_listed = Inr listed_args \<and>
   listed_args ''command'' = Some (PyStr (ascii ''add'')) \<and>
   add_arguments listed_args = Inr (PyStr (ascii ''A''), PyInt 1, PyStr (ascii ''[4, 5, 5]'')) \<and>
   main listing students_db add_listed empty_file = Finished listed_db [] \<and>
   to_int_array listing (PyStr (ascii ''[4, 5, 5]'')) = Some [Some 4, Some 5, Some 5] \<and>
   students (create_db empty_file) = Some [] \<and>
   students listed_db = Some ([] @ [(1, ascii ''A'', 1, [Some 4, Some 5, Some 5])])"
proof -
  have c: "listed_args ''command'' = Some (PyStr (ascii ''add''))"
    by (simp add: listed_args_def)
  from grade_is_command_line_string [where d = students_db and argv = add_listed
      and args = listed_args and eng = listing and db = empty_file] parse_add_listed c
  obtain v nm g where
    t: "add_arguments listed_args = Inr (nm, g, PyStr v)"
       "main listing students_db add_listed empty_file =
          (case add_student listing (create_db empty_file) nm g (PyStr v) of
             Inl e \<Rightarrow> Crashed e None []
           | Inr db2 \<Rightarrow> Finished db2 [])"
       "\<forall>db2 out. main listing students_db add_listed empty_file = Finished db2 out \<longrightarrow>
           (\<exists>srows sid s gid a.
              to_int_array listing (PyStr v) = Some a \<and>
              students (create_db empty_file) = Some srows \<and>
              students db2 = Some (srows @ [(sid, s, gid, a)]))"
    by blast
  from t(1) listed_arguments have e: "nm = PyStr (ascii ''A'')" "g = PyInt 1" "v = ascii ''[4, 5, 5]''"
    by simp_all
  from t(2) e add_listed_run
  have 1: "main listing students_db add_listed empty_file = Finished listed_db []" by simp
  with t(3) e(3) obtain srows sid s gid a where
    w: "to_int_array listing (PyStr (ascii ''[4, 5, 5]'')) = Some a"
       "students (create_db empty_file) = Some srows"
       "students listed_db = Some (srows @ [(sid, s, gid, a)])"
    by blast
  from w have 2: "to_int_array listing (PyStr (ascii ''[4, 5, 5]'')) = Some [Some 4, Some 5, Some 5]"
    by (simp add: listed_db_def create_db_def empty_file_def)
  from 1 2 c parse_add_listed listed_arguments show ?thesis
    by (simp add: listed_db_def create_db_def empty_file_def)
qed

end
